theory Spec2Isabelle
  imports Complex_Main "HOL-Library.Sublist"
begin

section \<open>Text\<close>

text \<open>
  The calculator agent (the second \<open>CalculatorAgent\<close> class of the source, the one with unit
  conversion, graphing and memory) works on JavaScript strings. A JavaScript string is
  modelled as a \<open>string\<close>, one \<open>char\<close> per UTF-16 code unit, for texts whose code points lie
  below 256. In that range the character classes of the regular expressions are:
  \<open>\w\<close> is \<open>[A-Za-z0-9_]\<close>, \<open>\s\<close> is tab, line feed, vertical tab, form feed, carriage
  return, space and the no-break space, \<open>\d\<close> is \<open>[0-9]\<close>. The two symbols of the allowed set
  of \<open>cleanInput\<close> that lie above 255 (the root sign and the Greek pi) cannot occur in such a
  text. Numbers are modelled as exact reals: the rounding of binary64 arithmetic is not
  part of the model.
\<close>

definition isWordChar :: "char \<Rightarrow> bool" where
  "isWordChar c =
     (let n = (of_char c :: nat)
      in (48 \<le> n \<and> n \<le> 57) \<or> (65 \<le> n \<and> n \<le> 90) \<or> n = 95 \<or> (97 \<le> n \<and> n \<le> 122))"

definition isSpace :: "char \<Rightarrow> bool" where
  "isSpace c =
     (let n = (of_char c :: nat) in (9 \<le> n \<and> n \<le> 13) \<or> n = 32 \<or> n = 160)"

definition isDigit :: "char \<Rightarrow> bool" where
  "isDigit c = (let n = (of_char c :: nat) in 48 \<le> n \<and> n \<le> 57)"

definition isLetter :: "char \<Rightarrow> bool" where
  "isLetter c =
     (let n = (of_char c :: nat) in (65 \<le> n \<and> n \<le> 90) \<or> (97 \<le> n \<and> n \<le> 122))"

text \<open>\<open>String.prototype.toLowerCase\<close>, character by character below code point 256.\<close>

definition toLowerChar :: "char \<Rightarrow> char" where
  "toLowerChar c =
     (let n = (of_char c :: nat)
      in if (65 \<le> n \<and> n \<le> 90) \<or> (192 \<le> n \<and> n \<le> 222 \<and> n \<noteq> 215)
         then char_of (n + 32) else c)"

definition toLowerCase :: "string \<Rightarrow> string" where
  "toLowerCase s = map toLowerChar s"

text \<open>\<open>String.prototype.trim\<close>.\<close>

definition trim :: "string \<Rightarrow> string" where
  "trim s = rev (dropWhile isSpace (rev (dropWhile isSpace s)))"

text \<open>\<open>String.prototype.includes\<close>: the key occurs as a contiguous run.\<close>

definition includesStr :: "string \<Rightarrow> string \<Rightarrow> bool" where
  "includesStr s k = sublist k s"

text \<open>The character class \<open>[^\w\s+\-*/().,^...]\<close> of \<open>cleanInput\<close>, negated.\<close>

definition allowedChar :: "char \<Rightarrow> bool" where
  "allowedChar c = (isWordChar c \<or> isSpace c \<or> c \<in> set ''+-*/().,^'')"

text \<open>
  \<open>replace(/\s+/g, ' ')\<close>: every maximal run of white space becomes one space. The flag
  of \<open>collapseFrom\<close> tells whether the scan is inside a run that has already produced its
  space.
\<close>

fun collapseFrom :: "bool \<Rightarrow> string \<Rightarrow> string" where
  "collapseFrom inRun [] = []"
| "collapseFrom inRun (c # cs) =
     (if isSpace c then (if inRun then collapseFrom True cs else CHR '' '' # collapseFrom True cs)
      else c # collapseFrom False cs)"

definition collapseSpaces :: "string \<Rightarrow> string" where
  "collapseSpaces s = collapseFrom False s"

text \<open>
  \<open>cleanInput\<close>: lower case, trim, strip the characters outside the allowed set, collapse
  white space, in this order.
\<close>

definition cleanInput :: "string \<Rightarrow> string" where
  "cleanInput input = collapseSpaces (filter allowedChar (trim (toLowerCase input)))"

text \<open>
  The word tokenizer of the \<open>natural\<close> library (\<open>WordTokenizer\<close>): the text is split at
  every run of characters other than letters, digits and underscore, and empty pieces are
  discarded. \<open>splitWords cur rest\<close> carries the token being read.
\<close>

fun splitWords :: "string \<Rightarrow> string \<Rightarrow> string list" where
  "splitWords cur [] = (if cur = [] then [] else [cur])"
| "splitWords cur (c # cs) =
     (if isWordChar c then splitWords (cur @ [c]) cs
      else (if cur = [] then [] else [cur]) @ splitWords [] cs)"

definition tokenize :: "string \<Rightarrow> string list" where
  "tokenize s = splitWords [] s"

text \<open>\<open>Array.prototype.join(' ')\<close> on strings.\<close>

fun joinSpace :: "string list \<Rightarrow> string" where
  "joinSpace [] = []"
| "joinSpace [t] = t"
| "joinSpace (t # u # ts) = t @ '' '' @ joinSpace (u # ts)"

section \<open>Numbers in text\<close>

text \<open>
  \<open>extractNumbers\<close> is \<open>text.match(/-?\d+\.?\d*/g)?.map(Number) || []\<close>. The global match
  is a left-to-right scan: a literal starts at a digit, or at a minus sign followed by a
  digit; it takes the digits, then one optional point, then the digits after it.
  \<open>scanNumbers st cur rest\<close> carries the part of the literal read so far.
\<close>

datatype scanState = Outside | IntPart | FracPart

fun scanNumbers :: "scanState \<Rightarrow> string \<Rightarrow> string \<Rightarrow> string list" where
  "scanNumbers st cur [] = (if st = Outside then [] else [cur])"
| "scanNumbers st cur (c # cs) =
     (if st = IntPart \<and> isDigit c then scanNumbers IntPart (cur @ [c]) cs
      else if st = IntPart \<and> c = CHR ''.'' then scanNumbers FracPart (cur @ [c]) cs
      else if st = FracPart \<and> isDigit c then scanNumbers FracPart (cur @ [c]) cs
      else (if st = Outside then [] else [cur]) @
           (if isDigit c then scanNumbers IntPart [c] cs
            else if c = CHR ''-'' \<and> (case cs of [] \<Rightarrow> False | d # _ \<Rightarrow> isDigit d)
                 then scanNumbers IntPart [c] cs
            else scanNumbers Outside [] cs))"

definition digitValue :: "char \<Rightarrow> nat" where
  "digitValue c = of_char c - 48"

definition digitsValue :: "string \<Rightarrow> nat" where
  "digitsValue ds = foldl (\<lambda>a c. 10 * a + digitValue c) 0 ds"

text \<open>\<open>Number(t)\<close> for a text \<open>t\<close> of the shape matched above.\<close>

definition toNumber :: "string \<Rightarrow> real" where
  "toNumber t =
     (let neg = (case t of [] \<Rightarrow> False | c # _ \<Rightarrow> c = CHR ''-'');
          body = (if neg then tl t else t);
          ip = takeWhile isDigit body;
          fp = drop 1 (dropWhile isDigit body);
          v = real (digitsValue ip) + real (digitsValue fp) / 10 ^ length fp
      in if neg then - v else v)"

definition extractNumbers :: "string \<Rightarrow> real list" where
  "extractNumbers text = map toNumber (scanNumbers Outside [] text)"

text \<open>
  \<open>String(n)\<close> and the template literal \<open>${n}\<close>. For an integral value below \<open>10^21\<close> in
  magnitude the text is the decimal numeral. For any other value the digits JavaScript
  prints depend on the binary64 representation; they are taken from the parameter
  \<open>fmt\<close>.
\<close>

definition digitChar :: "nat \<Rightarrow> char" where
  "digitChar d = ''0123456789'' ! d"

fun showNat :: "nat \<Rightarrow> string" where
  "showNat n = (if n < 10 then [digitChar n] else showNat (n div 10) @ [digitChar (n mod 10)])"

declare showNat.simps [simp del]

definition numberToString :: "(real \<Rightarrow> string) \<Rightarrow> real \<Rightarrow> string" where
  "numberToString fmt x =
     (if x \<in> \<int> \<and> \<bar>x\<bar> < 10 ^ 21
      then (if x < 0 then ''-'' @ showNat (nat \<lfloor>- x\<rfloor>) else showNat (nat \<lfloor>x\<rfloor>))
      else fmt x)"

section \<open>Keyword tables\<close>

text \<open>
  The tables of the constructor, as association lists in the insertion order that
  \<open>Object.keys\<close> and \<open>Object.entries\<close> follow. A temperature unit maps to a name, every
  other unit to its factor to the base unit of its category.
\<close>

definition mathKeywords :: "(string \<times> string) list" where
  "mathKeywords =
     [(''add'', ''+''), (''plus'', ''+''), (''addition'', ''+''), (''sum'', ''+''),
      (''subtract'', ''-''), (''minus'', ''-''), (''subtraction'', ''-''), (''difference'', ''-''),
      (''multiply'', ''*''), (''times'', ''*''), (''multiplication'', ''*''), (''product'', ''*''),
      (''divide'', ''/''), (''division'', ''/''), (''quotient'', ''/''),
      (''power'', ''^''), (''exponent'', ''^''), (''exponentiation'', ''^''),
      (''sqrt'', ''sqrt''), (''square root'', ''sqrt''),
      (''log'', ''log''), (''logarithm'', ''log''),
      (''sin'', ''sin''), (''cos'', ''cos''), (''tan'', ''tan''),
      (''pi'', ''pi''), (''e'', ''e'')]"

definition statsKeywords :: "(string \<times> string) list" where
  "statsKeywords =
     [(''mean'', ''mean''), (''average'', ''mean''), (''avg'', ''mean''),
      (''median'', ''median''), (''mode'', ''mode''),
      (''standard deviation'', ''std''), (''variance'', ''var''),
      (''sum'', ''sum''), (''count'', ''count'')]"

datatype unitValue = Factor real | Name string

definition lengthUnits :: "(string \<times> unitValue) list" where
  "lengthUnits =
     [(''mm'', Factor 0.001), (''millimeter'', Factor 0.001), (''millimeters'', Factor 0.001),
      (''cm'', Factor 0.01), (''centimeter'', Factor 0.01), (''centimeters'', Factor 0.01),
      (''m'', Factor 1), (''meter'', Factor 1), (''meters'', Factor 1),
      (''km'', Factor 1000), (''kilometer'', Factor 1000), (''kilometers'', Factor 1000),
      (''in'', Factor 0.0254), (''inch'', Factor 0.0254), (''inches'', Factor 0.0254),
      (''ft'', Factor 0.3048), (''foot'', Factor 0.3048), (''feet'', Factor 0.3048),
      (''yd'', Factor 0.9144), (''yard'', Factor 0.9144), (''yards'', Factor 0.9144),
      (''mi'', Factor 1609.344), (''mile'', Factor 1609.344), (''miles'', Factor 1609.344)]"

definition weightUnits :: "(string \<times> unitValue) list" where
  "weightUnits =
     [(''mg'', Factor 0.001), (''milligram'', Factor 0.001), (''milligrams'', Factor 0.001),
      (''g'', Factor 1), (''gram'', Factor 1), (''grams'', Factor 1),
      (''kg'', Factor 1000), (''kilogram'', Factor 1000), (''kilograms'', Factor 1000),
      (''oz'', Factor 28.3495), (''ounce'', Factor 28.3495), (''ounces'', Factor 28.3495),
      (''lb'', Factor 453.592), (''pound'', Factor 453.592), (''pounds'', Factor 453.592),
      (''ton'', Factor 1000000), (''metric ton'', Factor 1000000), (''tonne'', Factor 1000000)]"

text \<open>The degree sign is code point 176, the superscript two is code point 178.\<close>

definition temperatureUnits :: "(string \<times> unitValue) list" where
  "temperatureUnits =
     [(''c'', Name ''celsius''), (''celsius'', Name ''celsius''),
      ([char_of (176::nat), CHR ''c''], Name ''celsius''),
      (''f'', Name ''fahrenheit''), (''fahrenheit'', Name ''fahrenheit''),
      ([char_of (176::nat), CHR ''f''], Name ''fahrenheit''),
      (''k'', Name ''kelvin''), (''kelvin'', Name ''kelvin'')]"

definition areaUnits :: "(string \<times> unitValue) list" where
  "areaUnits =
     [(''mm'' @ [char_of (178::nat)], Factor 0.000001), (''cm'' @ [char_of (178::nat)], Factor 0.0001),
      (''m'' @ [char_of (178::nat)], Factor 1), (''km'' @ [char_of (178::nat)], Factor 1000000),
      (''in'' @ [char_of (178::nat)], Factor 0.00064516), (''ft'' @ [char_of (178::nat)], Factor 0.092903),
      (''yd'' @ [char_of (178::nat)], Factor 0.836127),
      (''acre'', Factor 4046.86), (''hectare'', Factor 10000)]"

definition volumeUnits :: "(string \<times> unitValue) list" where
  "volumeUnits =
     [(''ml'', Factor 0.001), (''milliliter'', Factor 0.001), (''milliliters'', Factor 0.001),
      (''l'', Factor 1), (''liter'', Factor 1), (''liters'', Factor 1),
      (''gal'', Factor 3.78541), (''gallon'', Factor 3.78541), (''gallons'', Factor 3.78541),
      (''qt'', Factor 0.946353), (''quart'', Factor 0.946353), (''quarts'', Factor 0.946353),
      (''pt'', Factor 0.473176), (''pint'', Factor 0.473176), (''pints'', Factor 0.473176),
      (''cup'', Factor 0.236588), (''cups'', Factor 0.236588),
      (''fl oz'', Factor 0.0295735), (''fluid ounce'', Factor 0.0295735),
      (''fluid ounces'', Factor 0.0295735)]"

definition timeUnits :: "(string \<times> unitValue) list" where
  "timeUnits =
     [(''ms'', Factor 0.001), (''millisecond'', Factor 0.001), (''milliseconds'', Factor 0.001),
      (''s'', Factor 1), (''second'', Factor 1), (''seconds'', Factor 1),
      (''min'', Factor 60), (''minute'', Factor 60), (''minutes'', Factor 60),
      (''h'', Factor 3600), (''hour'', Factor 3600), (''hours'', Factor 3600),
      (''day'', Factor 86400), (''days'', Factor 86400),
      (''week'', Factor 604800), (''weeks'', Factor 604800),
      (''month'', Factor 2629746), (''months'', Factor 2629746),
      (''year'', Factor 31556952), (''years'', Factor 31556952)]"

definition unitConversions :: "(string \<times> (string \<times> unitValue) list) list" where
  "unitConversions =
     [(''length'', lengthUnits), (''weight'', weightUnits), (''temperature'', temperatureUnits),
      (''area'', areaUnits), (''volume'', volumeUnits), (''time'', timeUnits)]"

definition unitKeywords :: "(string \<times> string) list" where
  "unitKeywords =
     [(''convert'', ''convert''), (''conversion'', ''convert''), (''to'', ''to''),
      (''from'', ''from''), (''in'', ''in''), (''as'', ''as'')]"

definition graphKeywords :: "(string \<times> string) list" where
  "graphKeywords =
     [(''plot'', ''plot''), (''graph'', ''plot''), (''chart'', ''plot''), (''draw'', ''plot''),
      (''visualize'', ''plot''), (''show'', ''plot''), (''display'', ''plot''),
      (''function'', ''function''), (''equation'', ''function''), (''formula'', ''function''),
      (''scatter'', ''scatter''), (''line'', ''line''), (''bar'', ''bar''),
      (''histogram'', ''histogram'')]"

section \<open>Classification\<close>

definition containsGraphKeywords :: "string \<Rightarrow> bool" where
  "containsGraphKeywords input = list_ex (\<lambda>keyword. includesStr input keyword) (map fst graphKeywords)"

definition containsUnitNames :: "string \<Rightarrow> bool" where
  "containsUnitNames input =
     list_ex (\<lambda>(category, units).
                list_ex (\<lambda>unit. includesStr (toLowerCase input) unit) (map fst units))
             unitConversions"

definition containsUnitKeywords :: "string \<Rightarrow> bool" where
  "containsUnitKeywords input =
     (list_ex (\<lambda>keyword. includesStr input keyword) (map fst unitKeywords)
      \<or> containsUnitNames input)"

definition containsStatsKeywords :: "string \<Rightarrow> bool" where
  "containsStatsKeywords input = list_ex (\<lambda>keyword. includesStr input keyword) (map fst statsKeywords)"

definition containsTrigKeywords :: "string \<Rightarrow> bool" where
  "containsTrigKeywords input =
     list_ex (\<lambda>keyword. includesStr input keyword)
       [''sin'', ''cos'', ''tan'', ''sine'', ''cosine'', ''tangent'']"

text \<open>
  \<open>isNaturalLanguage\<close>: a graphing keyword decides first; otherwise the text has a letter
  and none of the symbols \<open>+ - * / ^ ( )\<close> (the root sign lies outside the modelled range).
\<close>

definition isNaturalLanguage :: "string \<Rightarrow> bool" where
  "isNaturalLanguage input =
     (let hasMathSymbols = list_ex (\<lambda>c. c \<in> set ''+-*/^()'') input;
          hasWords = list_ex isLetter input
      in if containsGraphKeywords input then True else hasWords \<and> \<not> hasMathSymbols)"

definition detectOperationType :: "string \<Rightarrow> string" where
  "detectOperationType expression =
     (if includesStr expression ''sin'' \<or> includesStr expression ''cos'' \<or> includesStr expression ''tan''
      then ''trigonometry''
      else if includesStr expression ''log'' \<or> includesStr expression ''ln'' then ''logarithm''
      else if includesStr expression ''sqrt'' then ''square root''
      else if includesStr expression ''^'' \<or> includesStr expression ''**'' then ''exponentiation''
      else ''arithmetic'')"

section \<open>Unit conversion\<close>

text \<open>
  The requests that the extractors return are JavaScript objects; each extractor sets a
  fixed \<open>operationType\<close>, so the objects form a tagged union. \<open>Literal\<close> stands for the
  input that is not natural language: the cleaned text with the operation type that
  \<open>detectOperationType\<close> gives.
\<close>

datatype request =
    Literal string string
  | Arithmetic string
  | Statistics string real
  | Trigonometry string real
  | UnitConversion string real string string "string option"
  | FunctionPlot string real real
  | ScatterPlot string "real list" "real list"
  | Histogram string "real list"

fun expressionOf :: "request \<Rightarrow> string" where
  "expressionOf (Literal e op) = e"
| "expressionOf (Arithmetic e) = e"
| "expressionOf (Statistics e r) = e"
| "expressionOf (Trigonometry e r) = e"
| "expressionOf (UnitConversion e r f t c) = e"
| "expressionOf (FunctionPlot e a b) = e"
| "expressionOf (ScatterPlot e x y) = e"
| "expressionOf (Histogram e d) = e"

fun operationTypeOf :: "request \<Rightarrow> string" where
  "operationTypeOf (Literal e op) = op"
| "operationTypeOf (Arithmetic e) = ''arithmetic''"
| "operationTypeOf (Statistics e r) = ''statistics''"
| "operationTypeOf (Trigonometry e r) = ''trigonometry''"
| "operationTypeOf (UnitConversion e r f t c) = ''unit conversion''"
| "operationTypeOf (FunctionPlot e a b) = ''graphing''"
| "operationTypeOf (ScatterPlot e x y) = ''graphing''"
| "operationTypeOf (Histogram e d) = ''graphing''"

text \<open>\<open>Array.prototype.findIndex\<close>, with \<open>None\<close> for \<open>-1\<close>.\<close>

fun findIndex :: "('a \<Rightarrow> bool) \<Rightarrow> 'a list \<Rightarrow> nat option" where
  "findIndex P [] = None"
| "findIndex P (x # xs) = (if P x then Some 0 else map_option Suc (findIndex P xs))"

text \<open>The first unit of a table that occurs in the text (a loop left by \<open>break\<close>).\<close>

fun findUnit :: "string \<Rightarrow> string list \<Rightarrow> string option" where
  "findUnit text [] = None"
| "findUnit text (unit # units) = (if includesStr text unit then Some unit else findUnit text units)"

fun findSource :: "string \<Rightarrow> (string \<times> (string \<times> unitValue) list) list \<Rightarrow> string option \<times> string option" where
  "findSource text [] = (None, None)"
| "findSource text ((cat, units) # rest) =
     (case findUnit text (map fst units) of
        Some unit \<Rightarrow> (Some unit, Some cat)
      | None \<Rightarrow> findSource text rest)"

text \<open>
  The loops of the branch without a separator: the first unit found is the source and
  fixes the category, the next unit found (of any category) is the target and ends both
  loops. The state is \<open>(fromUnit, toUnit, category)\<close>.
\<close>

fun scanUnits :: "string \<Rightarrow> string \<Rightarrow> string list
    \<Rightarrow> string option \<times> string option \<times> string option
    \<Rightarrow> string option \<times> string option \<times> string option" where
  "scanUnits text cat [] st = st"
| "scanUnits text cat (unit # units) (f, t, c) =
     (if includesStr text unit
      then (if f = None then scanUnits text cat units (Some unit, t, Some cat)
            else if t = None then (f, Some unit, c)
            else scanUnits text cat units (f, t, c))
      else scanUnits text cat units (f, t, c))"

fun scanCategories :: "string \<Rightarrow> (string \<times> (string \<times> unitValue) list) list
    \<Rightarrow> string option \<times> string option \<times> string option
    \<Rightarrow> string option \<times> string option \<times> string option" where
  "scanCategories text [] st = st"
| "scanCategories text ((cat, units) # rest) st =
     (case scanUnits text cat (map fst units) st of
        (f, t, c) \<Rightarrow> if t \<noteq> None then (f, t, c) else scanCategories text rest (f, t, c))"

definition extractUnits :: "string \<Rightarrow> string option \<times> string option \<times> string option" where
  "extractUnits input =
     (let tokens = tokenize (toLowerCase input)
      in case findIndex (\<lambda>token. token = ''to'' \<or> token = ''in'' \<or> token = ''as'') tokens of
           None \<Rightarrow> scanCategories (toLowerCase input) unitConversions (None, None, None)
         | Some toIndex \<Rightarrow>
             (let beforeTo = joinSpace (take toIndex tokens);
                  afterTo = joinSpace (drop (toIndex + 1) tokens)
              in case findSource beforeTo unitConversions of
                   (fromUnit, category) \<Rightarrow>
                     (let units = (case category of
                                     None \<Rightarrow> []
                                   | Some cat \<Rightarrow> (case map_of unitConversions cat of
                                                    None \<Rightarrow> [] | Some us \<Rightarrow> map fst us))
                      in (fromUnit, findUnit afterTo units, category))))"

definition degreeC :: string where
  "degreeC = [char_of (176::nat), CHR ''c'']"

definition degreeF :: string where
  "degreeF = [char_of (176::nat), CHR ''f'']"

definition convertTemperature :: "real \<Rightarrow> string \<Rightarrow> string \<Rightarrow> string + real" where
  "convertTemperature v fromUnit toUnit =
     (let from = toLowerCase fromUnit; to = toLowerCase toUnit
      in case (if from = ''celsius'' \<or> from = ''c'' \<or> from = degreeC then Inr v
               else if from = ''fahrenheit'' \<or> from = ''f'' \<or> from = degreeF then Inr ((v - 32) * 5 / 9)
               else if from = ''kelvin'' \<or> from = ''k'' then Inr (v - 273.15)
               else Inl (''Unsupported temperature unit: '' @ fromUnit)) of
           Inl e \<Rightarrow> Inl e
         | Inr celsius \<Rightarrow>
             (if to = ''celsius'' \<or> to = ''c'' \<or> to = degreeC then Inr celsius
              else if to = ''fahrenheit'' \<or> to = ''f'' \<or> to = degreeF then Inr (celsius * 9 / 5 + 32)
              else if to = ''kelvin'' \<or> to = ''k'' then Inr (celsius + 273.15)
              else Inl (''Unsupported temperature unit: '' @ toUnit)))"

text \<open>
  \<open>convertUnit\<close>. Outside the temperature category every table value is a factor; a
  missing category, a missing unit or a zero factor is the error.
\<close>

definition factorOf :: "(string \<times> unitValue) list \<Rightarrow> string \<Rightarrow> real option" where
  "factorOf units unit = (case map_of units unit of Some (Factor x) \<Rightarrow> (if x = 0 then None else Some x) | _ \<Rightarrow> None)"

definition convertUnit :: "real \<Rightarrow> string \<Rightarrow> string \<Rightarrow> string option \<Rightarrow> string + real" where
  "convertUnit v fromUnit toUnit category =
     (if category = Some ''temperature'' then convertTemperature v fromUnit toUnit
      else case (case category of None \<Rightarrow> None | Some cat \<Rightarrow> map_of unitConversions cat) of
             None \<Rightarrow> Inl (''Unsupported unit conversion: '' @ fromUnit @ '' to '' @ toUnit)
           | Some units \<Rightarrow>
               (case (factorOf units fromUnit, factorOf units toUnit) of
                  (Some a, Some b) \<Rightarrow> (let baseValue = v * a in Inr (baseValue / b))
                | _ \<Rightarrow> Inl (''Unsupported unit conversion: '' @ fromUnit @ '' to '' @ toUnit)))"

definition parseUnitConversion :: "(real \<Rightarrow> string) \<Rightarrow> string \<Rightarrow> string + request" where
  "parseUnitConversion fmt input =
     (case extractNumbers input of
        [] \<Rightarrow> Inl ''No number found for unit conversion''
      | v # _ \<Rightarrow>
          (case extractUnits input of
             (Some fromUnit, Some toUnit, category) \<Rightarrow>
               (case convertUnit v fromUnit toUnit category of
                  Inl e \<Rightarrow> Inl e
                | Inr r \<Rightarrow>
                    Inr (UnitConversion (numberToString fmt v @ '' '' @ fromUnit @ '' to '' @ toUnit)
                           r fromUnit toUnit category))
           | _ \<Rightarrow> Inl ''Could not identify source and target units''))"

section \<open>Graphing requests\<close>

definition detectGraphType :: "string \<Rightarrow> string" where
  "detectGraphType input =
     (if includesStr input ''scatter'' \<or> includesStr input ''points'' then ''scatter''
      else if includesStr input ''histogram'' \<or> includesStr input ''distribution'' then ''histogram''
      else if includesStr input ''function'' \<or> includesStr input ''equation'' \<or> includesStr input ''formula''
           then ''function''
      else ''function'')"

text \<open>\<open>Array.prototype.filter\<close> with a predicate on the index.\<close>

definition filterByIndex :: "(nat \<Rightarrow> bool) \<Rightarrow> 'a list \<Rightarrow> 'a list" where
  "filterByIndex P xs = map fst (filter (\<lambda>(v, index). P index) (zip xs [0..<length xs]))"

definition parseScatterPlot :: "string \<Rightarrow> string + request" where
  "parseScatterPlot input =
     (let numbers = extractNumbers input
      in if length numbers < 4 then Inl ''Scatter plot requires at least 2 data points (4 numbers)''
         else (let x = filterByIndex (\<lambda>index. index mod 2 = 0) numbers;
                   y = filterByIndex (\<lambda>index. index mod 2 = 1) numbers
               in Inr (ScatterPlot (''scatter plot with '' @ showNat (length x) @ '' points'') x y)))"

definition parseHistogram :: "string \<Rightarrow> string + request" where
  "parseHistogram input =
     (let numbers = extractNumbers input
      in if length numbers = 0 then Inl ''Histogram requires data points''
         else Inr (Histogram (''histogram with '' @ showNat (length numbers) @ '' data points'') numbers))"

text \<open>
  \<open>parseFunctionPlot\<close> matches
  \<open>/(?:plot|graph|draw|show|display)\s+(.+?)(?:\s+from\s+(NUM))?(?:\s+to\s+(NUM))?$/i\<close>
  with \<open>NUM = -?\d+(?:\.\d+)?\<close>. The match is the leftmost one; the white space after the
  verb is greedy and gives characters back one at a time; the captured body is lazy, so
  it is the shortest text after which the rest of the input is the optional \<open>from\<close>
  clause, the optional \<open>to\<close> clause and nothing more. A number that is followed by the
  end of the input or by white space is always the longest one.
\<close>

definition isLineTerminator :: "char \<Rightarrow> bool" where
  "isLineTerminator c = ((of_char c :: nat) = 10 \<or> (of_char c :: nat) = 13)"

definition stripPrefixCI :: "string \<Rightarrow> string \<Rightarrow> string option" where
  "stripPrefixCI kw s =
     (if length kw \<le> length s \<and> toLowerCase (take (length kw) s) = kw
      then Some (drop (length kw) s) else None)"

definition takeNumber :: "string \<Rightarrow> (string \<times> string) option" where
  "takeNumber s =
     (let sign = (case s of [] \<Rightarrow> [] | c # _ \<Rightarrow> if c = CHR ''-'' then [c] else []);
          s1 = drop (length sign) s;
          ip = takeWhile isDigit s1;
          r1 = dropWhile isDigit s1
      in if ip = [] then None
         else (case r1 of
                 [] \<Rightarrow> Some (sign @ ip, r1)
               | c # r2 \<Rightarrow>
                   (if c = CHR ''.'' \<and> takeWhile isDigit r2 \<noteq> []
                    then Some (sign @ ip @ [c] @ takeWhile isDigit r2, dropWhile isDigit r2)
                    else Some (sign @ ip, r1))))"

definition parseClause :: "string \<Rightarrow> string \<Rightarrow> (string \<times> string) option" where
  "parseClause kw s =
     (let s1 = dropWhile isSpace s
      in if length s1 = length s then None
         else (case stripPrefixCI kw s1 of
                 None \<Rightarrow> None
               | Some s2 \<Rightarrow>
                   (let s3 = dropWhile isSpace s2
                    in if length s3 = length s2 then None else takeNumber s3)))"

definition matchTail :: "string \<Rightarrow> (string option \<times> string option) option" where
  "matchTail r =
     (let skipFrom = (case parseClause ''to'' r of
                        Some (t, r2) \<Rightarrow> if r2 = [] then Some (None, Some t)
                                        else if r = [] then Some (None, None) else None
                      | None \<Rightarrow> if r = [] then Some (None, None) else None)
      in case parseClause ''from'' r of
           Some (f, r1) \<Rightarrow>
             (case parseClause ''to'' r1 of
                Some (t, r2) \<Rightarrow> if r2 = [] then Some (Some f, Some t)
                                else if r1 = [] then Some (Some f, None) else skipFrom
              | None \<Rightarrow> if r1 = [] then Some (Some f, None) else skipFrom)
         | None \<Rightarrow> skipFrom)"

fun searchCapture :: "string \<Rightarrow> string \<Rightarrow> (string \<times> string option \<times> string option) option" where
  "searchCapture cap [] = None"
| "searchCapture cap (c # cs) =
     (if isLineTerminator c then None
      else (case matchTail cs of
              Some (f, t) \<Rightarrow> Some (cap @ [c], f, t)
            | None \<Rightarrow> searchCapture (cap @ [c]) cs))"

fun tryWhitespace :: "nat \<Rightarrow> string \<Rightarrow> (string \<times> string option \<times> string option) option" where
  "tryWhitespace 0 s = None"
| "tryWhitespace (Suc j) s =
     (case searchCapture [] (drop (Suc j) s) of
        Some m \<Rightarrow> Some m
      | None \<Rightarrow> tryWhitespace j s)"

fun matchVerbs :: "string list \<Rightarrow> string \<Rightarrow> (string \<times> string option \<times> string option) option" where
  "matchVerbs [] s = None"
| "matchVerbs (verb # verbs) s =
     (case (case stripPrefixCI verb s of
              None \<Rightarrow> None
            | Some r \<Rightarrow> tryWhitespace (length (takeWhile isSpace r)) r) of
        Some m \<Rightarrow> Some m
      | None \<Rightarrow> matchVerbs verbs s)"

fun matchFrom :: "string \<Rightarrow> (string \<times> string option \<times> string option) option" where
  "matchFrom [] = matchVerbs [''plot'', ''graph'', ''draw'', ''show'', ''display''] []"
| "matchFrom (c # cs) =
     (case matchVerbs [''plot'', ''graph'', ''draw'', ''show'', ''display''] (c # cs) of
        Some m \<Rightarrow> Some m
      | None \<Rightarrow> matchFrom cs)"

definition parseFunctionPlot :: "string \<Rightarrow> string + request" where
  "parseFunctionPlot input =
     (case matchFrom input of
        None \<Rightarrow> Inl ''Could not extract function expression''
      | Some (body, f, t) \<Rightarrow>
          Inr (FunctionPlot (trim body)
                 (case f of Some n \<Rightarrow> toNumber n | None \<Rightarrow> - 10)
                 (case t of Some n \<Rightarrow> toNumber n | None \<Rightarrow> 10)))"

definition parseGraphingRequest :: "string \<Rightarrow> string + request" where
  "parseGraphingRequest input =
     (let graphType = detectGraphType input
      in if graphType = ''function'' then parseFunctionPlot input
         else if graphType = ''scatter'' then parseScatterPlot input
         else if graphType = ''histogram'' then parseHistogram input
         else Inl ''Unsupported graph type'')"

section \<open>Values and the environment of the agent\<close>

text \<open>
  A JavaScript number is a finite value, an infinity or \<open>NaN\<close>; \<open>typeof v === 'number'\<close>
  holds exactly of the values \<open>JNumber n\<close>. Objects are association lists in key order.
  \<open>JOther\<close> stands for any value of another kind (a unit, a matrix, a function, ...).
\<close>

datatype jsNumber = Finite real | PosInfinity | NegInfinity | NaN

datatype jsValue =
    JNumber jsNumber
  | JString string
  | JBool bool
  | JNull
  | JArray "jsValue list"
  | JObject "(string \<times> jsValue) list"
  | JOther string

datatype plotData =
    LinesPlot "real list" "jsValue list" string
  | MarkersPlot "real list" "real list"
  | BarsPlot "(real \<times> real) list" "nat list"

text \<open>
  What the agent takes from outside its own code is a parameter of the model:
  \<^item> \<open>compile e\<close>: \<open>math.compile(e)\<close> returns without throwing;
  \<^item> \<open>evaluate e\<close>: the value of \<open>math.evaluate(e)\<close>, or the message of the error it throws;
  \<^item> \<open>statistic f xs\<close>: \<open>math.mean\<close>, \<open>math.median\<close>, \<open>math.std\<close> or \<open>math.sum\<close> (named by
    \<open>f\<close>) on the array \<open>xs\<close>;
  \<^item> \<open>trigDegrees f a\<close>: \<open>math.sin(math.unit(a, 'deg'))\<close> and likewise for \<open>cos\<close> and \<open>tan\<close>,
    where \<open>a\<close> is \<open>None\<close> for \<open>undefined\<close>;
  \<^item> \<open>fmt x\<close>: the text of a number that is not a small integer (see \<open>numberToString\<close>);
  \<^item> \<open>finiteOther v\<close>: the answer of the global \<open>isFinite\<close> on a value that is neither a
    number, a boolean nor \<open>null\<close>;
  \<^item> \<open>writePlot d stem\<close>: the file system part of \<open>createPlot\<close> (directory, page, file
    \<open>stem_<time>.html\<close>): the path written, or the message of the error raised;
  \<^item> \<open>timestamp\<close>: \<open>new Date().toISOString()\<close>.
\<close>

record environment =
  compile :: "string \<Rightarrow> bool"
  evaluate :: "string \<Rightarrow> string + jsValue"
  statistic :: "string \<Rightarrow> real list \<Rightarrow> string + real"
  trigDegrees :: "string \<Rightarrow> real option \<Rightarrow> string + real"
  fmt :: "real \<Rightarrow> string"
  finiteOther :: "jsValue \<Rightarrow> bool"
  writePlot :: "plotData \<Rightarrow> string \<Rightarrow> string + string"
  timestamp :: string

definition jsNumberToString :: "(real \<Rightarrow> string) \<Rightarrow> jsNumber \<Rightarrow> string" where
  "jsNumberToString f n =
     (case n of
        Finite x \<Rightarrow> numberToString f x
      | PosInfinity \<Rightarrow> ''Infinity''
      | NegInfinity \<Rightarrow> ''-Infinity''
      | NaN \<Rightarrow> ''NaN'')"

section \<open>Natural-language requests\<close>

text \<open>
  \<open>isNumber token\<close> is \<open>!isNaN(parseFloat(token)) && isFinite(token)\<close>. A token consists of
  letters, digits and underscores; \<open>parseFloat\<close> reads a number from it when it starts with
  a digit, and \<open>Number\<close> reads all of it when it is a decimal numeral with an optional
  exponent or a numeral with a radix prefix.
\<close>

definition isNumber :: "string \<Rightarrow> bool" where
  "isNumber token =
     (let ds = takeWhile isDigit token; r = dropWhile isDigit token
      in (ds \<noteq> [] \<and>
            (case r of
               [] \<Rightarrow> True
             | c # ex \<Rightarrow> (c = CHR ''e'' \<or> c = CHR ''E'') \<and> ex \<noteq> [] \<and> list_all isDigit ex))
         \<or> (case token of
               z # p # body \<Rightarrow>
                 z = CHR ''0'' \<and> body \<noteq> [] \<and>
                 ((p \<in> set ''xX'' \<and> list_all (\<lambda>c. c \<in> set ''0123456789abcdefABCDEF'') body)
                  \<or> (p \<in> set ''oO'' \<and> list_all (\<lambda>c. c \<in> set ''01234567'') body)
                  \<or> (p \<in> set ''bB'' \<and> list_all (\<lambda>c. c \<in> set ''01'') body))
             | _ \<Rightarrow> False))"

definition numberWords :: "(string \<times> nat) list" where
  "numberWords =
     [(''zero'', 0), (''one'', 1), (''two'', 2), (''three'', 3), (''four'', 4),
      (''five'', 5), (''six'', 6), (''seven'', 7), (''eight'', 8), (''nine'', 9),
      (''ten'', 10), (''eleven'', 11), (''twelve'', 12), (''thirteen'', 13),
      (''fourteen'', 14), (''fifteen'', 15), (''sixteen'', 16), (''seventeen'', 17),
      (''eighteen'', 18), (''nineteen'', 19), (''twenty'', 20)]"

definition isNumberWord :: "string \<Rightarrow> bool" where
  "isNumberWord token = (map_of numberWords token \<noteq> None)"

text \<open>\<open>numberWords[word] || word\<close>: the value \<open>0\<close> is falsy, so \<open>zero\<close> stays a word.\<close>

definition wordToNumber :: "string \<Rightarrow> string" where
  "wordToNumber word =
     (case map_of numberWords word of
        Some n \<Rightarrow> if n = 0 then word else showNat n
      | None \<Rightarrow> word)"

text \<open>
  The loop of \<open>parseNaturalLanguage\<close> over the tokens; the expression is the concatenation
  of what each round appends. A text that reaches the loop in \<open>calculate\<close> contains no
  \<open>to\<close>, hence no token that names an inherited property of the keyword table.
\<close>

fun arithmeticLoop :: "string list \<Rightarrow> string" where
  "arithmeticLoop [] = []"
| "arithmeticLoop (token # rest) =
     (if isNumber token
      then token @ (if rest \<noteq> [] \<and> isNumber (hd rest) then '' '' else []) @ arithmeticLoop rest
      else if map_of mathKeywords token \<noteq> None
      then the (map_of mathKeywords token)
           @ (if rest \<noteq> [] \<and> isNumber (hd rest) then '' '' else []) @ arithmeticLoop rest
      else if token = ''and'' \<or> token = ''with'' then arithmeticLoop rest
      else if isNumberWord token
      then wordToNumber token
           @ (if rest \<noteq> [] \<and> isNumber (hd rest) then '' '' else []) @ arithmeticLoop rest
      else (if rest \<noteq> [] \<and> isNumber (hd rest) then '' '' else []) @ arithmeticLoop rest)"

fun detectStatsTypeIn :: "(string \<times> string) list \<Rightarrow> string \<Rightarrow> string" where
  "detectStatsTypeIn [] input = ''mean''"
| "detectStatsTypeIn ((keyword, operation) # rest) input =
     (if includesStr input keyword then operation else detectStatsTypeIn rest input)"

definition detectStatsType :: "string \<Rightarrow> string" where
  "detectStatsType input = detectStatsTypeIn statsKeywords input"

definition detectTrigFunction :: "string \<Rightarrow> string" where
  "detectTrigFunction input =
     (if includesStr input ''sin'' \<or> includesStr input ''sine'' then ''sin''
      else if includesStr input ''cos'' \<or> includesStr input ''cosine'' then ''cos''
      else if includesStr input ''tan'' \<or> includesStr input ''tangent'' then ''tan''
      else ''sin'')"

text \<open>\<open>Array.prototype.join(', ')\<close> on the texts of the numbers.\<close>

fun joinComma :: "string list \<Rightarrow> string" where
  "joinComma [] = []"
| "joinComma [t] = t"
| "joinComma (t # u # ts) = t @ '', '' @ joinComma (u # ts)"

definition parseStatisticsRequest :: "environment \<Rightarrow> string \<Rightarrow> string + request" where
  "parseStatisticsRequest env input =
     (let numbers = extractNumbers input;
          statsType = detectStatsType input;
          called = (if statsType = ''mean'' \<or> statsType = ''median'' \<or> statsType = ''std''
                       \<or> statsType = ''sum'' then statsType else ''mean'')
      in case statistic env called numbers of
           Inl e \<Rightarrow> Inl e
         | Inr r \<Rightarrow>
             Inr (Statistics
                    (statsType @ ''('' @ joinComma (map (numberToString (fmt env)) numbers) @ '')'') r))"

definition parseTrigonometryRequest :: "environment \<Rightarrow> string \<Rightarrow> string + request" where
  "parseTrigonometryRequest env input =
     (let angle = (case extractNumbers input of [] \<Rightarrow> None | a # _ \<Rightarrow> Some a);
          trigFunction = detectTrigFunction input
      in case trigDegrees env trigFunction angle of
           Inl e \<Rightarrow> Inl e
         | Inr r \<Rightarrow>
             Inr (Trigonometry
                    (trigFunction @ ''(''
                       @ (case angle of None \<Rightarrow> ''undefined'' | Some a \<Rightarrow> numberToString (fmt env) a)
                       @ '')'') r))"

definition parseNaturalLanguage :: "environment \<Rightarrow> string \<Rightarrow> string + request" where
  "parseNaturalLanguage env input =
     (let tokens = tokenize input
      in if containsStatsKeywords input then parseStatisticsRequest env input
         else if containsTrigKeywords input then parseTrigonometryRequest env input
         else Inr (Arithmetic (arithmeticLoop tokens)))"

section \<open>Plots\<close>

text \<open>\<open>expression.replace(/x/g, r)\<close>.\<close>

definition replaceX :: "string \<Rightarrow> string \<Rightarrow> string" where
  "replaceX expression r = concat (map (\<lambda>c. if c = CHR ''x'' then r else [c]) expression)"

definition isFiniteValue :: "environment \<Rightarrow> jsValue \<Rightarrow> bool" where
  "isFiniteValue env v =
     (case v of
        JNumber (Finite x) \<Rightarrow> True
      | JNumber _ \<Rightarrow> False
      | JBool b \<Rightarrow> True
      | JNull \<Rightarrow> True
      | _ \<Rightarrow> finiteOther env v)"

text \<open>
  \<open>generateFunctionData\<close> with its default of 100 points: 101 samples; a sample whose
  evaluation throws or is not finite is skipped.
\<close>

definition generateFunctionData :: "environment \<Rightarrow> string \<Rightarrow> real \<Rightarrow> real \<Rightarrow> (real \<times> jsValue) list" where
  "generateFunctionData env expression from to =
     (let step = (to - from) / 100
      in concat (map (\<lambda>i. let xVal = from + real i * step;
                              evalExpression = replaceX expression (''('' @ numberToString (fmt env) xVal @ '')'')
                          in case evaluate env evalExpression of
                               Inl e \<Rightarrow> []
                             | Inr yVal \<Rightarrow> if isFiniteValue env yVal then [(xVal, yVal)] else [])
                     [0..<101]))"

definition createPlot :: "environment \<Rightarrow> plotData \<Rightarrow> string \<Rightarrow> string + string" where
  "createPlot env plotData stem =
     (case writePlot env plotData stem of
        Inl e \<Rightarrow> Inl (''Failed to create plot: '' @ e)
      | Inr filepath \<Rightarrow> Inr filepath)"

definition num :: "real \<Rightarrow> jsValue" where
  "num x = JNumber (Finite x)"

definition generateFunctionPlot :: "environment \<Rightarrow> string \<Rightarrow> real \<Rightarrow> real \<Rightarrow> string + jsValue" where
  "generateFunctionPlot env expression from to =
     (let points = generateFunctionData env expression from to;
          x = map fst points; y = map snd points
      in case createPlot env (LinesPlot x y (''y = '' @ expression)) ''function'' of
           Inl e \<Rightarrow> Inl e
         | Inr filepath \<Rightarrow>
             Inr (JObject [(''success'', JBool True), (''filepath'', JString filepath),
                           (''expression'', JString expression), (''from'', num from),
                           (''to'', num to), (''points'', num (real (length x)))]))"

definition generateScatterPlot :: "environment \<Rightarrow> real list \<Rightarrow> real list \<Rightarrow> string + jsValue" where
  "generateScatterPlot env x y =
     (case createPlot env (MarkersPlot x y) ''scatter'' of
        Inl e \<Rightarrow> Inl e
      | Inr filepath \<Rightarrow>
          Inr (JObject [(''success'', JBool True), (''filepath'', JString filepath),
                        (''points'', num (real (length x)))]))"

text \<open>
  \<open>createHistogramBins\<close>. The number of bins is \<open>Math.min(10, Math.ceil(Math.sqrt(n)))\<close>.
  A label is the text \<open>binStart.toFixed(1) - binEnd.toFixed(1)\<close>; the model keeps the two
  edges it is printed from. The result is the pair of labels and counts.
\<close>

definition numBinsOf :: "nat \<Rightarrow> nat" where
  "numBinsOf n = min 10 (nat \<lceil>sqrt (real n)\<rceil>)"

definition binStart :: "real list \<Rightarrow> nat \<Rightarrow> real" where
  "binStart data i =
     Min (set data) + real i * ((Max (set data) - Min (set data)) / real (numBinsOf (length data)))"

definition binEnd :: "real list \<Rightarrow> nat \<Rightarrow> real" where
  "binEnd data i =
     Min (set data) + (real i + 1) * ((Max (set data) - Min (set data)) / real (numBinsOf (length data)))"

definition createHistogramBins :: "real list \<Rightarrow> (real \<times> real) list \<times> nat list" where
  "createHistogramBins data =
     (if data = [] then ([], [])
      else (map (\<lambda>i. (binStart data i, binEnd data i)) [0..<numBinsOf (length data)],
            map (\<lambda>i. length (filter (\<lambda>val. val \<ge> binStart data i \<and> val < binEnd data i) data))
                [0..<numBinsOf (length data)]))"

definition generateHistogram :: "environment \<Rightarrow> real list \<Rightarrow> string + jsValue" where
  "generateHistogram env data =
     (case createHistogramBins data of
        (labels, counts) \<Rightarrow>
          (case createPlot env (BarsPlot labels counts) ''histogram'' of
             Inl e \<Rightarrow> Inl e
           | Inr filepath \<Rightarrow>
               Inr (JObject [(''success'', JBool True), (''filepath'', JString filepath),
                             (''dataPoints'', num (real (length data)))])))"

section \<open>Memory and the entry point\<close>

text \<open>The mutable fields of the agent, with the values the constructor gives them.\<close>

record agent =
  history :: "(string \<times> jsValue) list list"
  historyLimit :: nat
  lastAnswer :: "jsNumber option"

definition newAgent :: agent where
  "newAgent = \<lparr>history = [], historyLimit = 50, lastAnswer = None\<rparr>"

text \<open>\<open>addHistoryEntry\<close>: \<open>push\<close>, then one \<open>shift\<close> when the limit is exceeded.\<close>

definition addHistoryEntry :: "(string \<times> jsValue) list \<Rightarrow> agent \<Rightarrow> agent" where
  "addHistoryEntry entry a =
     (let pushed = history a @ [entry]
      in a\<lparr>history := (if length pushed > historyLimit a then tl pushed else pushed)\<rparr>)"

definition clearHistory :: "agent \<Rightarrow> agent" where
  "clearHistory a = a\<lparr>history := [], lastAnswer := None\<rparr>"

text \<open>
  \<open>replace(/\bans\b/g, r)\<close>: scanning from the left, the text \<open>ans\<close> is replaced where the
  character before it and the character after it are not word characters (or are
  missing). \<open>ansHere prevWord s\<close> tells whether the pattern matches at the start of \<open>s\<close>,
  where \<open>prevWord\<close> tells whether the character before \<open>s\<close> is a word character.
\<close>

definition ansHere :: "bool \<Rightarrow> string \<Rightarrow> bool" where
  "ansHere prevWord s =
     (\<not> prevWord \<and> take 3 s = ''ans''
      \<and> (case drop 3 s of [] \<Rightarrow> True | d # _ \<Rightarrow> \<not> isWordChar d))"

fun replaceAnsFrom :: "bool \<Rightarrow> string \<Rightarrow> string \<Rightarrow> string" where
  "replaceAnsFrom prevWord r [] = []"
| "replaceAnsFrom prevWord r (c # cs) =
     (if ansHere prevWord (c # cs) then r @ replaceAnsFrom True r (drop 2 cs)
      else c # replaceAnsFrom (isWordChar c) r cs)"

definition replaceAns :: "string \<Rightarrow> string \<Rightarrow> string" where
  "replaceAns r text = replaceAnsFrom False r text"

text \<open>Lines 513 to 518 of \<open>calculate\<close>: the text that is classified.\<close>

definition substituteAns :: "environment \<Rightarrow> agent \<Rightarrow> string \<Rightarrow> string" where
  "substituteAns env a cleanedInput =
     (case lastAnswer a of
        None \<Rightarrow> cleanedInput
      | Some r \<Rightarrow> replaceAns (jsNumberToString (fmt env) r) cleanedInput)"

text \<open>Lines 521 to 544: the dispatch on the classified text.\<close>

definition parseRequest :: "environment \<Rightarrow> string \<Rightarrow> string + request" where
  "parseRequest env cleanedInput =
     (if isNaturalLanguage cleanedInput
      then (if containsGraphKeywords cleanedInput then parseGraphingRequest cleanedInput
            else if containsUnitKeywords cleanedInput then parseUnitConversion (fmt env) cleanedInput
            else parseNaturalLanguage env cleanedInput)
      else Inr (Literal cleanedInput (detectOperationType cleanedInput)))"

definition isValidExpression :: "environment \<Rightarrow> string \<Rightarrow> bool" where
  "isValidExpression env expression = compile env expression"

definition evaluateExpression :: "environment \<Rightarrow> string \<Rightarrow> string + jsValue" where
  "evaluateExpression env expression =
     (case evaluate env expression of
        Inl e \<Rightarrow> Inl (''Calculation error: '' @ e)
      | Inr v \<Rightarrow> Inr v)"

text \<open>
  Lines 546 to 578: validation (skipped for graphing), then the plot or the evaluation.
  The result comes with the \<open>additionalData\<close> of the payload.
\<close>

definition perform :: "environment \<Rightarrow> request \<Rightarrow> string + jsValue \<times> (string \<times> jsValue) list" where
  "perform env req =
     (case req of
        FunctionPlot e from to \<Rightarrow>
          (case generateFunctionPlot env e from to of
             Inl m \<Rightarrow> Inl m
           | Inr r \<Rightarrow> Inr (r, [(''graphType'', JString ''function''), (''from'', num from), (''to'', num to)]))
      | ScatterPlot e x y \<Rightarrow>
          (case generateScatterPlot env x y of
             Inl m \<Rightarrow> Inl m
           | Inr r \<Rightarrow> Inr (r, [(''graphType'', JString ''scatter''), (''points'', num (real (length x)))]))
      | Histogram e d \<Rightarrow>
          (case generateHistogram env d of
             Inl m \<Rightarrow> Inl m
           | Inr r \<Rightarrow> Inr (r, [(''graphType'', JString ''histogram''), (''dataPoints'', num (real (length d)))]))
      | _ \<Rightarrow>
          (if \<not> isValidExpression env (expressionOf req) then Inl ''Invalid mathematical expression''
           else (case evaluateExpression env (expressionOf req) of
                   Inl m \<Rightarrow> Inl m
                 | Inr r \<Rightarrow> Inr (r, []))))"

text \<open>
  The object a graphing extractor returned, for \<open>expression.expression || expression\<close>
  when the expression text of a function plot is empty.
\<close>

definition requestObject :: "request \<Rightarrow> (string \<times> jsValue) list" where
  "requestObject req =
     (case req of
        FunctionPlot e from to \<Rightarrow>
          [(''expression'', JString e), (''operationType'', JString ''graphing''),
           (''graphType'', JString ''function''), (''from'', num from), (''to'', num to),
           (''result'', JNull)]
      | ScatterPlot e x y \<Rightarrow>
          [(''expression'', JString e), (''operationType'', JString ''graphing''),
           (''graphType'', JString ''scatter''), (''x'', JArray (map num x)),
           (''y'', JArray (map num y)), (''result'', JNull)]
      | Histogram e d \<Rightarrow>
          [(''expression'', JString e), (''operationType'', JString ''graphing''),
           (''graphType'', JString ''histogram''), (''data'', JArray (map num d)),
           (''result'', JNull)]
      | _ \<Rightarrow> [])"

definition expressionField :: "request \<Rightarrow> jsValue" where
  "expressionField req =
     (if operationTypeOf req = ''graphing'' \<and> expressionOf req = []
      then JObject (requestObject req) else JString (expressionOf req))"

definition agentName :: string where
  "agentName = ''AI Calculator Agent''"

definition successPayload :: "environment \<Rightarrow> string \<Rightarrow> request \<Rightarrow> jsValue \<Rightarrow> (string \<times> jsValue) list
    \<Rightarrow> (string \<times> jsValue) list" where
  "successPayload env input req result additionalData =
     [(''success'', JBool True), (''input'', JString input),
      (''expression'', expressionField req), (''result'', result),
      (''operationType'', JString (operationTypeOf req)),
      (''timestamp'', JString (timestamp env)), (''agent'', JString agentName)]
     @ additionalData"

definition failurePayload :: "environment \<Rightarrow> string \<Rightarrow> string \<Rightarrow> (string \<times> jsValue) list" where
  "failurePayload env input message =
     [(''success'', JBool False), (''input'', JString input), (''error'', JString message),
      (''timestamp'', JString (timestamp env)), (''agent'', JString agentName)]"

definition historyEntry :: "environment \<Rightarrow> string \<Rightarrow> request \<Rightarrow> jsValue \<Rightarrow> (string \<times> jsValue) list" where
  "historyEntry env input req result =
     [(''input'', JString input), (''expression'', expressionField req),
      (''operationType'', JString (operationTypeOf req)), (''result'', result),
      (''timestamp'', JString (timestamp env))]"

text \<open>Lines 591 to 612: the last answer is set for a numeric result, the entry is stored.\<close>

definition remember :: "environment \<Rightarrow> string \<Rightarrow> request \<Rightarrow> jsValue \<Rightarrow> agent \<Rightarrow> agent" where
  "remember env input req result a =
     addHistoryEntry (historyEntry env input req result)
       (case result of JNumber n \<Rightarrow> a\<lparr>lastAnswer := Some n\<rparr> | _ \<Rightarrow> a)"

text \<open>
  \<open>attempt env text\<close> is the \<open>try\<close> block of \<open>calculate\<close> from line 520 to line 578, for the
  classified text: the request, its result and the \<open>additionalData\<close>, or the message of
  what was thrown. Nothing in it assigns to a field of the agent.
\<close>

definition attempt :: "environment \<Rightarrow> string \<Rightarrow> string + request \<times> jsValue \<times> (string \<times> jsValue) list" where
  "attempt env text =
     (case parseRequest env text of
        Inl message \<Rightarrow> Inl message
      | Inr req \<Rightarrow>
          (case perform env req of
             Inl message \<Rightarrow> Inl message
           | Inr (result, additionalData) \<Rightarrow> Inr (req, result, additionalData)))"

text \<open>
  \<open>respond\<close> is the rest of \<open>calculate\<close>: the success payload with the update of the memory
  (lines 580 to 614), or the \<open>catch\<close> block (lines 616 to 624).
\<close>

definition respond :: "environment \<Rightarrow> agent \<Rightarrow> string
    \<Rightarrow> string + request \<times> jsValue \<times> (string \<times> jsValue) list
    \<Rightarrow> (string \<times> jsValue) list \<times> agent" where
  "respond env a input outcome =
     (case outcome of
        Inl message \<Rightarrow> (failurePayload env input message, a)
      | Inr (req, result, additionalData) \<Rightarrow>
          (successPayload env input req result additionalData, remember env input req result a))"

definition calculate :: "environment \<Rightarrow> agent \<Rightarrow> string \<Rightarrow> (string \<times> jsValue) list \<times> agent" where
  "calculate env a input = respond env a input (attempt env (substituteAns env a (cleanInput input)))"

section \<open>Notions used in the statements\<close>

text \<open>A payload reports success when its \<open>success\<close> field is \<open>true\<close>.\<close>

definition isSuccess :: "(string \<times> jsValue) list \<Rightarrow> bool" where
  "isSuccess payload = (map_of payload ''success'' = Some (JBool True))"

text \<open>The history entry that \<open>calculate\<close> builds from the fields of a success payload.\<close>

definition entryOfPayload :: "(string \<times> jsValue) list \<Rightarrow> (string \<times> jsValue) list" where
  "entryOfPayload payload =
     map (\<lambda>key. (key, the (map_of payload key)))
       [''input'', ''expression'', ''operationType'', ''result'', ''timestamp'']"

text \<open>
  A session: the requests are handled one after the other, each in the environment it
  meets; the result is the list of the payloads returned and the agent at the end.
\<close>

fun session :: "agent \<Rightarrow> (environment \<times> string) list \<Rightarrow> (string \<times> jsValue) list list \<times> agent" where
  "session a [] = ([], a)"
| "session a ((env, input) # rest) =
     (case calculate env a input of
        (payload, a') \<Rightarrow> (case session a' rest of (payloads, final) \<Rightarrow> (payload # payloads, final)))"

text \<open>
  The domain a text is routed to: the tests of \<open>parseRequest\<close> and \<open>parseNaturalLanguage\<close>
  in their order; for a text that is not natural language, \<open>detectOperationType\<close>. The
  classification of a text is this domain together with the natural-language flag.
\<close>

definition domainOf :: "string \<Rightarrow> string" where
  "domainOf s =
     (if isNaturalLanguage s
      then (if containsGraphKeywords s then ''graphing''
            else if containsUnitKeywords s then ''unit conversion''
            else if containsStatsKeywords s then ''statistics''
            else if containsTrigKeywords s then ''trigonometry''
            else ''arithmetic'')
      else detectOperationType s)"

definition classify :: "string \<Rightarrow> bool \<times> string" where
  "classify s = (isNaturalLanguage s, domainOf s)"

text \<open>
  The shape of a cleaned text: every character is allowed and in lower case
  (\<open>cleanChar\<close>), and white space occurs only as single spaces (\<open>spacedFrom\<close>, whose flag
  tells whether the character before is a space).
\<close>

definition cleanChar :: "char \<Rightarrow> bool" where
  "cleanChar c = (allowedChar c \<and> toLowerChar c = c)"

fun spacedFrom :: "bool \<Rightarrow> string \<Rightarrow> bool" where
  "spacedFrom inRun [] = True"
| "spacedFrom inRun (c # cs) =
     (if isSpace c then c = CHR '' '' \<and> \<not> inRun \<and> spacedFrom True cs else spacedFrom False cs)"

text \<open>A keyword that is not empty and neither starts nor ends with white space.\<close>

definition keyShape :: "string \<Rightarrow> bool" where
  "keyShape k = (k \<noteq> [] \<and> \<not> isSpace (hd k) \<and> \<not> isSpace (last k))"


text \<open>
  An environment for running the model on concrete inputs. Its evaluator knows the
  unsigned integer numerals and nothing else; its statistics, its trigonometry and its
  file system always raise.
\<close>

definition integerLibrary :: environment where
  "integerLibrary =
     \<lparr>compile = (\<lambda>e. e \<noteq> [] \<and> list_all isDigit e),
      evaluate = (\<lambda>e. if e \<noteq> [] \<and> list_all isDigit e then Inr (num (real (digitsValue e)))
                      else Inl ''Undefined symbol''),
      statistic = (\<lambda>f xs. Inl ''not available''),
      trigDegrees = (\<lambda>f a. Inl ''not available''),
      fmt = (\<lambda>x. ''0''),
      finiteOther = (\<lambda>v. False),
      writePlot = (\<lambda>d stem. Inl ''read-only file system''),
      timestamp = ''2025-01-01T00:00:00.000Z''\<rparr>"


text \<open>
  An agent whose ledger holds two entries at most, and three requests that succeed in
  the environment above.
\<close>

definition smallLedger :: agent where
  "smallLedger = newAgent\<lparr>historyLimit := 2\<rparr>"

definition threeRequests :: "(environment \<times> string) list" where
  "threeRequests = [(integerLibrary, ''1''), (integerLibrary, ''2''), (integerLibrary, ''3'')]"


section \<open>The documented examples\<close>

lemma replaceAnsFrom_without_a: "CHR ''a'' \<notin> set s \<Longrightarrow> replaceAnsFrom p r s = s"
  by (induction s arbitrary: p) (auto simp add: ansHere_def)

lemma substituteAns_without_a: "CHR ''a'' \<notin> set s \<Longrightarrow> substituteAns env a s = s"
  by (simp add: substituteAns_def replaceAns_def replaceAnsFrom_without_a split: option.split)

lemma numberToString_15: "numberToString f 15 = ''15''"
  by (simp add: numberToString_def showNat.simps digitChar_def)

lemma numberToString_32: "numberToString f 32 = ''32''"
  by (simp add: numberToString_def showNat.simps digitChar_def)

lemma numberToString_45: "numberToString f 45 = ''45''"
  by (simp add: numberToString_def showNat.simps digitChar_def)

lemma plus_clean: "cleanInput ''What is 15 plus 27?'' = ''what is 15 plus 27''"
  by code_simp

lemma plus_subst: "substituteAns env a ''what is 15 plus 27'' = ''what is 15 plus 27''"
  by (simp add: substituteAns_def replaceAns_def ansHere_def isWordChar_def split: option.split)

lemma plus_route:
  "isNaturalLanguage ''what is 15 plus 27'' \<and> \<not> containsGraphKeywords ''what is 15 plus 27''
   \<and> containsUnitKeywords ''what is 15 plus 27''"
  by code_simp

lemma plus_numbers: "extractNumbers ''what is 15 plus 27'' = [15, 27]"
  by code_simp

lemma plus_units: "extractUnits ''what is 15 plus 27'' = (Some ''l'', Some ''s'', Some ''volume'')"
  by code_simp

lemma plus_convert:
  "convertUnit 15 ''l'' ''s'' (Some ''volume'') = Inl ''Unsupported unit conversion: l to s''"
  by code_simp

text \<open>
  C1. The documented example \<open>What is 15 plus 27?\<close> is said to succeed with the value 42
  and the operation type \<open>arithmetic\<close>. In the code the cleaned text contains the unit
  names \<open>l\<close> (in \<open>plus\<close>) and \<open>s\<close>, so it is handed to the unit-conversion extractor, which
  takes \<open>l\<close> (volume) as the source and \<open>s\<close> (time) as the target; \<open>convertUnit\<close> throws, and
  \<open>calculate\<close> returns the failure payload, for every environment and every state of the
  agent.
\<close>

theorem calculate_what_is_15_plus_27:
  "calculate env a ''What is 15 plus 27?'' =
     (failurePayload env ''What is 15 plus 27?'' ''Unsupported unit conversion: l to s'', a)"
  by (simp add: calculate_def attempt_def respond_def plus_clean plus_subst parseRequest_def plus_route
        parseUnitConversion_def plus_numbers plus_units plus_convert)

lemma convert_clean:
  "cleanInput ''convert 32 fahrenheit to celsius'' = ''convert 32 fahrenheit to celsius''"
  by code_simp

lemma convert_subst:
  "substituteAns env a ''convert 32 fahrenheit to celsius'' = ''convert 32 fahrenheit to celsius''"
  by (simp add: substituteAns_def replaceAns_def ansHere_def isWordChar_def split: option.split)

lemma convert_route:
  "isNaturalLanguage ''convert 32 fahrenheit to celsius''
   \<and> \<not> containsGraphKeywords ''convert 32 fahrenheit to celsius''
   \<and> containsUnitKeywords ''convert 32 fahrenheit to celsius''"
  by code_simp

lemma convert_numbers: "extractNumbers ''convert 32 fahrenheit to celsius'' = [32]"
  by code_simp

lemma convert_units:
  "extractUnits ''convert 32 fahrenheit to celsius'' = (Some ''c'', Some ''c'', Some ''temperature'')"
  by code_simp

lemma convert_value: "convertUnit 32 ''c'' ''c'' (Some ''temperature'') = Inr 32"
  by code_simp

lemma convert_request:
  "parseRequest env ''convert 32 fahrenheit to celsius'' =
     Inr (UnitConversion ''32 c to c'' 32 ''c'' ''c'' (Some ''temperature''))"
  by (simp add: parseRequest_def convert_route parseUnitConversion_def convert_numbers
        convert_units convert_value numberToString_32)

text \<open>
  C2. The documented example \<open>convert 32 fahrenheit to celsius\<close> is said to succeed with
  the value 0, the operation type \<open>unit conversion\<close> and the target unit \<open>celsius\<close>. In the
  code the source unit is the first table entry that occurs before the separator, which
  is \<open>c\<close> (in \<open>convert\<close>), and the target unit is the first temperature entry that occurs
  after it, which is \<open>c\<close> again. The extractor computes 32, and \<open>calculate\<close> discards that
  value: it evaluates the expression text \<open>32 c to c\<close> and returns what the evaluator
  gives for it. The payload has no field \<open>toUnit\<close>.
\<close>

theorem calculate_convert_32_fahrenheit:
  "calculate env a ''convert 32 fahrenheit to celsius'' =
     (if \<not> compile env ''32 c to c''
      then (failurePayload env ''convert 32 fahrenheit to celsius'' ''Invalid mathematical expression'', a)
      else case evaluate env ''32 c to c'' of
             Inl m \<Rightarrow> (failurePayload env ''convert 32 fahrenheit to celsius'' (''Calculation error: '' @ m), a)
           | Inr v \<Rightarrow>
               (successPayload env ''convert 32 fahrenheit to celsius''
                  (UnitConversion ''32 c to c'' 32 ''c'' ''c'' (Some ''temperature'')) v [],
                remember env ''convert 32 fahrenheit to celsius''
                  (UnitConversion ''32 c to c'' 32 ''c'' ''c'' (Some ''temperature'')) v a))
   \<and> map_of (fst (calculate env a ''convert 32 fahrenheit to celsius'')) ''toUnit'' = None"
  by (simp add: calculate_def attempt_def respond_def convert_clean convert_subst convert_request
        perform_def isValidExpression_def evaluateExpression_def successPayload_def
        failurePayload_def split: sum.split)

lemma tan_clean: "cleanInput ''tan 45'' = ''tan 45''"
  by code_simp

lemma tan_subst: "substituteAns env a ''tan 45'' = ''tan 45''"
  by (simp add: substituteAns_def replaceAns_def ansHere_def isWordChar_def split: option.split)

lemma tan_route:
  "isNaturalLanguage ''tan 45'' \<and> \<not> containsGraphKeywords ''tan 45''
   \<and> \<not> containsUnitKeywords ''tan 45'' \<and> \<not> containsStatsKeywords ''tan 45''
   \<and> containsTrigKeywords ''tan 45'' \<and> detectTrigFunction ''tan 45'' = ''tan''"
  by code_simp

lemma tan_numbers: "extractNumbers ''tan 45'' = [45]"
  by code_simp

text \<open>
  C3. A natural-language trigonometry request is said to return the function applied to
  the first number read as an angle in degrees. For \<open>tan 45\<close> the extractor does compute
  that value (\<open>trigDegrees env ''tan'' (Some 45)\<close>, the tangent of 45 degrees), but
  \<open>calculate\<close> keeps only the expression text \<open>tan(45)\<close>, which carries no unit, and returns
  the value the evaluator gives for that text.
\<close>

theorem calculate_tan_45:
  "calculate env a ''tan 45'' =
     (case trigDegrees env ''tan'' (Some 45) of
        Inl m \<Rightarrow> (failurePayload env ''tan 45'' m, a)
      | Inr inDegrees \<Rightarrow>
          (if \<not> compile env ''tan(45)''
           then (failurePayload env ''tan 45'' ''Invalid mathematical expression'', a)
           else case evaluate env ''tan(45)'' of
                  Inl m \<Rightarrow> (failurePayload env ''tan 45'' (''Calculation error: '' @ m), a)
                | Inr v \<Rightarrow>
                    (successPayload env ''tan 45'' (Trigonometry ''tan(45)'' inDegrees) v [],
                     remember env ''tan 45'' (Trigonometry ''tan(45)'' inDegrees) v a)))"
  by (simp add: calculate_def attempt_def respond_def tan_clean tan_subst parseRequest_def tan_route
        parseNaturalLanguage_def parseTrigonometryRequest_def tan_numbers numberToString_45
        perform_def isValidExpression_def evaluateExpression_def split: sum.split)

section \<open>The scatter extractor\<close>

lemma filterByIndex_nth: "filterByIndex P xs = map ((!) xs) (filter P [0..<length xs])"
proof -
  have "zip xs [0..<length xs] = map (\<lambda>i. (xs ! i, i)) [0..<length xs]"
    by (rule nth_equalityI) simp_all
  then show ?thesis
    by (simp add: filterByIndex_def filter_map comp_def)
qed

lemma even_indices: "filter (\<lambda>i. i mod 2 = 0) [0..<n] = map (\<lambda>i. 2 * i) [0..<(n + 1) div 2]"
proof (induction n)
  case 0
  then show ?case by simp
next
  case (Suc n)
  show ?case
  proof (cases "n mod 2 = 0")
    case True
    then have "(Suc n + 1) div 2 = Suc ((n + 1) div 2)" "2 * ((n + 1) div 2) = n" by presburger+
    with Suc True show ?thesis by simp
  next
    case False
    then have "(Suc n + 1) div 2 = (n + 1) div 2" by presburger
    with Suc False show ?thesis by simp
  qed
qed

lemma odd_indices: "filter (\<lambda>i. i mod 2 = Suc 0) [0..<n] = map (\<lambda>i. Suc (2 * i)) [0..<n div 2]"
proof (induction n)
  case 0
  then show ?case by simp
next
  case (Suc n)
  show ?case
  proof (cases "n mod 2 = 1")
    case True
    then have "Suc n div 2 = Suc (n div 2)" "Suc (2 * (n div 2)) = n" by presburger+
    with Suc True show ?thesis by simp
  next
    case False
    then have "Suc n div 2 = n div 2" by presburger
    with Suc False show ?thesis by simp
  qed
qed

lemma scatter_numbers: "extractNumbers ''scatter 1,2 3,4 5,6'' = [1, 2, 3, 4, 5, 6]"
  by code_simp

text \<open>
  C8, as the code has it. Fewer than four numeric literals are the extraction error, and
  that is the only check: any count of at least four is accepted, odd counts included.
  For \<open>n\<close> literals the x-values are the literals at the even positions (\<open>(n + 1) div 2\<close>
  of them) and the y-values those at the odd positions (\<open>n div 2\<close> of them), in their
  order; for \<open>2k\<close> literals with \<open>k \<ge> 2\<close> there are exactly \<open>k\<close> of each and the \<open>i\<close>-th
  pair is made of the literals \<open>2i\<close> and \<open>2i + 1\<close>.
\<close>

theorem parseScatterPlot_parity:
  "(length (extractNumbers input) < 4 \<longrightarrow>
      parseScatterPlot input = Inl ''Scatter plot requires at least 2 data points (4 numbers)'')
   \<and> (4 \<le> length (extractNumbers input) \<longrightarrow>
        parseScatterPlot input =
          Inr (ScatterPlot
                 (''scatter plot with '' @ showNat ((length (extractNumbers input) + 1) div 2) @ '' points'')
                 (map (\<lambda>i. extractNumbers input ! (2 * i)) [0..<(length (extractNumbers input) + 1) div 2])
                 (map (\<lambda>i. extractNumbers input ! (2 * i + 1)) [0..<length (extractNumbers input) div 2])))
   \<and> (2 \<le> k \<and> length (extractNumbers input) = 2 * k \<longrightarrow>
        (\<exists>e x y. parseScatterPlot input = Inr (ScatterPlot e x y) \<and> length x = k \<and> length y = k
           \<and> (\<forall>i<k. x ! i = extractNumbers input ! (2 * i) \<and> y ! i = extractNumbers input ! (2 * i + 1))))"
  by (auto simp add: parseScatterPlot_def Let_def filterByIndex_nth even_indices odd_indices comp_def)

theorem parseScatterPlot_parity_witness:
  "parseScatterPlot ''scatter 1,2 3,4 5,6'' =
     Inr (ScatterPlot ''scatter plot with 3 points'' [1, 3, 5] [2, 4, 6])"
  using parseScatterPlot_parity [of "''scatter 1,2 3,4 5,6''" 3]
  by (simp add: scatter_numbers showNat.simps digitChar_def upt_rec [of 0] upt_rec [of 1] upt_rec [of 2])

text \<open>
  C8 as stated says that an odd count is an extraction error. Five literals are accepted:
  three x-values and two y-values.
\<close>

theorem parseScatterPlot_odd_count_counterexample:
  "parseScatterPlot ''scatter 1 2 3 4 5'' =
     Inr (ScatterPlot ''scatter plot with 3 points'' [1, 3, 5] [2, 4])"
  by code_simp

section \<open>Normalisation\<close>

lemma toLowerChar_idem: "toLowerChar (toLowerChar c) = toLowerChar c"
  by (auto simp add: toLowerChar_def Let_def)

lemma toLowerChar_space: "isSpace (toLowerChar c) = isSpace c"
  by (auto simp add: toLowerChar_def isSpace_def Let_def)

lemma space_clean: "cleanChar (CHR '' '')"
  by (simp add: cleanChar_def allowedChar_def isSpace_def toLowerChar_def)

lemma space_isSpace: "isSpace (CHR '' '')"
  by (simp add: isSpace_def)

lemma collapseFrom_chars: "\<forall>c\<in>set s. cleanChar c \<Longrightarrow> \<forall>c\<in>set (collapseFrom b s). cleanChar c"
  by (induction s arbitrary: b) (auto simp add: space_clean)

lemma collapseFrom_spaced: "spacedFrom b (collapseFrom b s)"
  by (induction s arbitrary: b) (auto simp add: space_isSpace)

lemma spaced_collapse: "spacedFrom b s \<Longrightarrow> collapseFrom b s = s"
  by (induction s arbitrary: b) (auto split: if_splits)

lemma spaced_dropWhile: "spacedFrom b s \<Longrightarrow> spacedFrom False (dropWhile isSpace s)"
  by (induction s arbitrary: b) (auto split: if_splits)

lemma spaced_prefix: "spacedFrom b (u @ v) \<Longrightarrow> spacedFrom b u"
  by (induction u arbitrary: b) (auto split: if_splits)

lemma dropEnd_prefix: "\<exists>v. s = rev (dropWhile P (rev s)) @ v"
proof -
  have "rev s = takeWhile P (rev s) @ dropWhile P (rev s)" by simp
  then have "s = rev (takeWhile P (rev s) @ dropWhile P (rev s))" by (metis rev_rev_ident)
  then show ?thesis by (metis rev_append)
qed

lemma spaced_trim: "spacedFrom b s \<Longrightarrow> spacedFrom False (trim s)"
proof -
  assume "spacedFrom b s"
  then have d: "spacedFrom False (dropWhile isSpace s)" by (rule spaced_dropWhile)
  obtain v where "dropWhile isSpace s = trim s @ v"
    unfolding trim_def using dropEnd_prefix [of "dropWhile isSpace s" isSpace] by blast
  with d show ?thesis by (metis spaced_prefix)
qed

lemma trim_subset: "set (trim s) \<subseteq> set s"
proof -
  have "set (trim s) = set (dropWhile isSpace (rev (dropWhile isSpace s)))" by (simp add: trim_def)
  also have "\<dots> \<subseteq> set (rev (dropWhile isSpace s))" by (rule set_dropWhileD [THEN subsetI])
  also have "\<dots> \<subseteq> set s" using set_dropWhileD by fastforce
  finally show ?thesis .
qed

lemma cleanInput_chars: "\<forall>c\<in>set (cleanInput x). cleanChar c"
  unfolding cleanInput_def collapseSpaces_def
proof (rule collapseFrom_chars, rule ballI)
  fix c assume c: "c \<in> set (filter allowedChar (trim (toLowerCase x)))"
  then have "allowedChar c" by simp
  moreover from c have "c \<in> set (toLowerCase x)" using trim_subset by fastforce
  then have "toLowerChar c = c" by (auto simp add: toLowerCase_def toLowerChar_idem)
  ultimately show "cleanChar c" by (simp add: cleanChar_def)
qed

lemma cleanInput_spaced: "spacedFrom False (cleanInput x)"
  by (simp add: cleanInput_def collapseSpaces_def collapseFrom_spaced)

lemma clean_fixed:
  assumes "\<forall>c\<in>set s. cleanChar c" and "spacedFrom False s"
  shows "cleanInput s = trim s"
proof -
  from assms(1) have "toLowerCase s = s"
    by (simp add: toLowerCase_def cleanChar_def map_idI)
  moreover from assms(1) have "filter allowedChar (trim s) = trim s"
    using trim_subset [of s] by (auto simp add: cleanChar_def filter_id_conv)
  moreover have "collapseFrom False (trim s) = trim s"
    using assms(2) by (simp add: spaced_trim spaced_collapse)
  ultimately show ?thesis by (simp add: cleanInput_def collapseSpaces_def)
qed

lemma cleanInput_twice: "cleanInput (cleanInput x) = trim (cleanInput x)"
  by (rule clean_fixed) (simp_all add: cleanInput_chars cleanInput_spaced)

lemma trim_ends: "trim s \<noteq> [] \<Longrightarrow> \<not> isSpace (hd (trim s)) \<and> \<not> isSpace (last (trim s))"
proof -
  assume ne: "trim s \<noteq> []"
  let ?d = "dropWhile isSpace s"
  let ?e = "dropWhile isSpace (rev ?d)"
  have t: "trim s = rev ?e" by (simp add: trim_def)
  with ne have e: "?e \<noteq> []" by simp
  then have "\<not> isSpace (hd ?e)" by (metis hd_dropWhile)
  then have l: "\<not> isSpace (last (trim s))" using e t by (simp add: last_rev)
  obtain v where v: "?d = trim s @ v" using dropEnd_prefix [of ?d isSpace] t by auto
  with ne have "hd ?d = hd (trim s)" by simp
  moreover from v ne have "?d \<noteq> []" by auto
  then have "\<not> isSpace (hd ?d)" by (metis hd_dropWhile)
  ultimately show ?thesis using l by simp
qed

lemma dropWhile_head: "xs \<noteq> [] \<Longrightarrow> \<not> P (hd xs) \<Longrightarrow> dropWhile P xs = xs"
  by (cases xs) auto

lemma trim_id: "s = [] \<or> (\<not> isSpace (hd s) \<and> \<not> isSpace (last s)) \<Longrightarrow> trim s = s"
proof (cases s)
  case Nil
  then show ?thesis by (simp add: trim_def)
next
  case (Cons c cs)
  assume "s = [] \<or> (\<not> isSpace (hd s) \<and> \<not> isSpace (last s))"
  with Cons have h: "\<not> isSpace c" and l: "\<not> isSpace (last s)" by auto
  from h Cons have "dropWhile isSpace s = s" by simp
  moreover have "s \<noteq> []" using Cons by simp
  then have "rev s \<noteq> []" "hd (rev s) = last s" by (simp_all add: hd_rev)
  then have "dropWhile isSpace (rev s) = rev s" using l by (intro dropWhile_head) simp_all
  ultimately show ?thesis by (simp add: trim_def)
qed

lemma trim_idem: "trim (trim s) = trim s"
  by (rule trim_id) (use trim_ends in blast)

section \<open>Classification of a trimmed text\<close>

lemma sublist_dropWhile:
  "k \<noteq> [] \<Longrightarrow> \<not> P (hd k) \<Longrightarrow> sublist k (dropWhile P s) = sublist k s"
proof (induction s)
  case Nil
  then show ?case by simp
next
  case (Cons c cs)
  show ?case
  proof (cases "P c")
    case True
    with Cons.prems have "\<not> prefix k (c # cs)" by (cases k) auto
    with True Cons show ?thesis by (simp add: sublist_Cons_right)
  next
    case False
    then show ?thesis by simp
  qed
qed

lemma includes_trim:
  assumes "k \<noteq> []" and "\<not> isSpace (hd k)" and "\<not> isSpace (last k)"
  shows "includesStr (trim s) k = includesStr s k"
proof -
  have r: "rev k \<noteq> []" "\<not> isSpace (hd (rev k))" using assms by (simp_all add: hd_rev)
  have "sublist k (trim s) = sublist (rev k) (dropWhile isSpace (rev (dropWhile isSpace s)))"
    by (simp add: trim_def sublist_rev_right)
  also have "\<dots> = sublist (rev k) (rev (dropWhile isSpace s))" using r by (rule sublist_dropWhile)
  also have "\<dots> = sublist k (dropWhile isSpace s)" by simp
  also have "\<dots> = sublist k s" using assms(1,2) by (rule sublist_dropWhile)
  finally show ?thesis by (simp add: includesStr_def)
qed

lemma keys_trim: "list_all keyShape ks \<Longrightarrow>
    list_ex (\<lambda>k. includesStr (trim s) k) ks = list_ex (\<lambda>k. includesStr s k) ks"
  by (induction ks) (auto simp add: keyShape_def includes_trim)

lemma graph_keys: "list_all keyShape (map fst graphKeywords)"
  by code_simp

lemma unit_keys: "list_all keyShape (map fst unitKeywords)"
  by code_simp

lemma stats_keys: "list_all keyShape (map fst statsKeywords)"
  by code_simp

lemma trig_keys: "list_all keyShape [''sin'', ''cos'', ''tan'', ''sine'', ''cosine'', ''tangent'']"
  by code_simp

lemma unit_names: "list_all (\<lambda>(category, units). list_all keyShape (map fst units)) unitConversions"
  by code_simp

lemma other_keys: "list_all keyShape [''log'', ''ln'', ''sqrt'', ''^'', ''**'']"
  by code_simp

lemma toLowerCase_trim: "toLowerCase (trim s) = trim (toLowerCase s)"
proof -
  have c: "isSpace \<circ> toLowerChar = isSpace" by (rule ext) (simp add: toLowerChar_space)
  show ?thesis
    by (simp add: toLowerCase_def trim_def dropWhile_map rev_map c)
qed

lemma member_dropWhile: "c \<in> set s \<Longrightarrow> \<not> P c \<Longrightarrow> c \<in> set (dropWhile P s)"
  by (induction s) auto

lemma member_trim: "c \<in> set s \<Longrightarrow> \<not> isSpace c \<Longrightarrow> c \<in> set (trim s)"
  by (simp add: trim_def member_dropWhile)

lemma list_ex_trim: "(\<And>c. P c \<Longrightarrow> \<not> isSpace c) \<Longrightarrow> list_ex P (trim s) = list_ex P s"
  using trim_subset [of s] member_trim [of _ s] by (auto simp add: list_ex_iff)

lemma containsGraphKeywords_trim: "containsGraphKeywords (trim s) = containsGraphKeywords s"
  by (simp add: containsGraphKeywords_def keys_trim graph_keys)

lemma containsStatsKeywords_trim: "containsStatsKeywords (trim s) = containsStatsKeywords s"
  by (simp add: containsStatsKeywords_def keys_trim stats_keys)

lemma containsTrigKeywords_trim: "containsTrigKeywords (trim s) = containsTrigKeywords s"
  by (simp only: containsTrigKeywords_def keys_trim [OF trig_keys])

lemma units_trim:
  "list_all (\<lambda>(category, units). list_all keyShape (map fst units)) table \<Longrightarrow>
   list_ex (\<lambda>(category, units). list_ex (\<lambda>unit. includesStr (trim s) unit) (map fst units)) table
   = list_ex (\<lambda>(category, units). list_ex (\<lambda>unit. includesStr s unit) (map fst units)) table"
  by (induction table) (auto simp add: keys_trim)

lemma containsUnitNames_trim: "containsUnitNames (trim s) = containsUnitNames s"
  by (simp add: containsUnitNames_def toLowerCase_trim units_trim [OF unit_names])

lemma containsUnitKeywords_trim: "containsUnitKeywords (trim s) = containsUnitKeywords s"
  by (simp add: containsUnitKeywords_def keys_trim unit_keys containsUnitNames_trim)

lemma isNaturalLanguage_trim: "isNaturalLanguage (trim s) = isNaturalLanguage s"
proof -
  have a: "list_ex (\<lambda>c. c \<in> set ''+-*/^()'') (trim s) = list_ex (\<lambda>c. c \<in> set ''+-*/^()'') s"
    by (rule list_ex_trim) (auto simp add: isSpace_def)
  have b: "list_ex isLetter (trim s) = list_ex isLetter s"
    by (rule list_ex_trim) (auto simp add: isSpace_def isLetter_def Let_def)
  show ?thesis
    by (simp only: isNaturalLanguage_def a b containsGraphKeywords_trim)
qed

lemma detectOperationType_trim: "detectOperationType (trim s) = detectOperationType s"
proof -
  have k: "\<And>k. k \<in> set [''sin'', ''cos'', ''tan'', ''log'', ''ln'', ''sqrt'', ''^'', ''**''] \<Longrightarrow>
      includesStr (trim s) k = includesStr s k"
    by (rule includes_trim) (auto simp add: isSpace_def)
  show ?thesis by (simp add: detectOperationType_def k)
qed

lemma classify_trim: "classify (trim s) = classify s"
  by (simp add: classify_def domainOf_def isNaturalLanguage_trim containsGraphKeywords_trim
        containsUnitKeywords_trim containsStatsKeywords_trim containsTrigKeywords_trim
        detectOperationType_trim)

text \<open>
  C9, as the code has it. \<open>cleanInput\<close> trims before it strips, so a text that starts or
  ends with stripped characters next to white space keeps one space at that end. Cleaning
  a cleaned text only trims it, a third cleaning changes nothing more, and the
  classification of the cleaned text equals the classification of its cleaned form.
\<close>

theorem cleanInput_settles_after_one_more_trim:
  "cleanInput (cleanInput x) = trim (cleanInput x)
   \<and> cleanInput (cleanInput (cleanInput x)) = cleanInput (cleanInput x)
   \<and> classify (cleanInput (cleanInput x)) = classify (cleanInput x)"
proof -
  have one: "cleanInput (cleanInput x) = trim (cleanInput x)" by (rule cleanInput_twice)
  have "cleanInput (cleanInput (cleanInput x)) = trim (cleanInput (cleanInput x))"
    by (rule cleanInput_twice)
  then have two: "cleanInput (cleanInput (cleanInput x)) = cleanInput (cleanInput x)"
    by (simp add: one trim_idem)
  show ?thesis by (simp add: two classify_trim) (simp add: one classify_trim)
qed

text \<open>
  C9 as stated says that normalisation is idempotent. For the input \<open>? a\<close> the first
  cleaning gives the text with a leading space, the second one removes it.
\<close>

theorem cleanInput_not_idempotent_counterexample:
  "cleanInput ''? a'' = '' a'' \<and> cleanInput (cleanInput ''? a'') = ''a''"
  by code_simp

text \<open>The domain of a text is the operation type of the request made from it.\<close>

lemma parseRequest_domain: "parseRequest env s = Inr req \<Longrightarrow> operationTypeOf req = domainOf s"
  by (auto simp add: parseRequest_def domainOf_def parseGraphingRequest_def parseFunctionPlot_def
        parseScatterPlot_def parseHistogram_def parseUnitConversion_def parseNaturalLanguage_def
        parseStatisticsRequest_def parseTrigonometryRequest_def Let_def
        split: if_splits option.splits sum.splits list.splits prod.splits)

section \<open>The histogram bins\<close>











section \<open>Failures\<close>

lemma success_isSuccess: "isSuccess (successPayload env input req result extra)"
  by (simp add: isSuccess_def successPayload_def)

lemma failure_not_success: "\<not> isSuccess (failurePayload env input m)"
  by (simp add: isSuccess_def failurePayload_def)

lemma calculate_cases:
  "(\<exists>m. calculate env a input = (failurePayload env input m, a))
   \<or> (\<exists>req result extra. calculate env a input =
          (successPayload env input req result extra, remember env input req result a))"
  by (auto simp add: calculate_def respond_def split: sum.split prod.split)

text \<open>
  C4. \<open>calculate\<close> is a total function of the model: whatever is thrown inside the \<open>try\<close>
  block is a value \<open>Inl message\<close> of \<open>attempt\<close>, and \<open>calculate\<close> returns for it the payload
  with \<open>success\<close> false and \<open>error\<close> the message, with the agent as it was (ledger and last
  answer). So a call either succeeds or returns the same agent, and a failed
  request adds nothing to the ledger.
\<close>

theorem calculate_returns_failure_value:
  "((\<exists>req result extra.
        calculate env a input =
          (successPayload env input req result extra, remember env input req result a))
    \<or> (\<exists>message.
          calculate env a input = (failurePayload env input message, a)
          \<and> map_of (failurePayload env input message) ''success'' = Some (JBool False)
          \<and> map_of (failurePayload env input message) ''error'' = Some (JString message)))
   \<and> (isSuccess (fst (calculate env a input)) \<or> snd (calculate env a input) = a)
   \<and> (case attempt env (substituteAns env a (cleanInput input)) of
         Inl message \<Rightarrow> calculate env a input = (failurePayload env input message, a)
       | Inr (req, result, extra) \<Rightarrow> isSuccess (fst (calculate env a input)))"
  using calculate_cases [of env a input]
  by (auto simp add: failurePayload_def success_isSuccess calculate_def respond_def
        split: sum.split prod.split)

section \<open>Evaluating the model\<close>

text \<open>
  Equations by which the two definitions that mention a square root and the set of the
  integers are computed on concrete arguments.
\<close>

lemma ceiling_sqrt:
  assumes "0 < k" and "(k - 1) * (k - 1) < n" and "n \<le> k * k"
  shows "nat \<lceil>sqrt (real n)\<rceil> = k"
proof -
  have "real n \<le> real (k * k)" using assms(3) by (simp only: of_nat_le_iff)
  then have "sqrt (real n) \<le> sqrt (real (k * k))" by (rule real_sqrt_le_mono)
  moreover have "sqrt (real (k * k)) = real k" by simp
  ultimately have up: "sqrt (real n) \<le> real k" by simp
  have "real ((k - 1) * (k - 1)) < real n" using assms(2) by (simp only: of_nat_less_iff)
  then have "sqrt (real ((k - 1) * (k - 1))) < sqrt (real n)" by (rule real_sqrt_less_mono)
  moreover have "sqrt (real ((k - 1) * (k - 1))) = real (k - 1)" by simp
  ultimately have lo: "real (k - 1) < sqrt (real n)" by simp
  have "\<lceil>sqrt (real n)\<rceil> = int k"
  proof (rule ceiling_unique)
    show "of_int (int k) - 1 < sqrt (real n)" using lo assms(1) by (simp add: of_nat_diff)
    show "sqrt (real n) \<le> of_int (int k)" using up by simp
  qed
  then show ?thesis by simp
qed

lemma numBinsOf_code [code]:
  "numBinsOf n =
     (if n = 0 then 0 else if n \<le> 1 then 1 else if n \<le> 4 then 2 else if n \<le> 9 then 3
      else if n \<le> 16 then 4 else if n \<le> 25 then 5 else if n \<le> 36 then 6
      else if n \<le> 49 then 7 else if n \<le> 64 then 8 else if n \<le> 81 then 9 else 10)"
proof -
  have big: "81 < n \<Longrightarrow> 10 \<le> nat \<lceil>sqrt (real n)\<rceil>"
  proof -
    assume "81 < n"
    then have "(81::real) < real n" by simp
    then have "sqrt 81 < sqrt (real n)" by (rule real_sqrt_less_mono)
    moreover have "sqrt (81::real) = 9" by (rule real_sqrt_unique) simp_all
    ultimately have "of_int 9 < sqrt (real n)" by simp
    then have "9 < \<lceil>sqrt (real n)\<rceil>" by (simp only: less_ceiling_iff)
    then show ?thesis by linarith
  qed
  show ?thesis
    using ceiling_sqrt [of 1 n] ceiling_sqrt [of 2 n] ceiling_sqrt [of 3 n] ceiling_sqrt [of 4 n]
      ceiling_sqrt [of 5 n] ceiling_sqrt [of 6 n] ceiling_sqrt [of 7 n] ceiling_sqrt [of 8 n]
      ceiling_sqrt [of 9 n] big
    by (auto simp add: numBinsOf_def min_def)
qed

lemma numberToString_code [code]:
  "numberToString f x =
     (if of_int \<lfloor>x\<rfloor> = x \<and> \<bar>x\<bar> < 10 ^ 21
      then (if x < 0 then ''-'' @ showNat (nat \<lfloor>- x\<rfloor>) else showNat (nat \<lfloor>x\<rfloor>))
      else f x)"
  by (auto simp add: numberToString_def Ints_def)

section \<open>The ledger\<close>

lemma entry_of_success:
  "entryOfPayload (successPayload env input req result extra) = historyEntry env input req result"
  by (simp add: entryOfPayload_def successPayload_def historyEntry_def)

lemma remember_history:
  "history (remember env input req result a) = history (addHistoryEntry (historyEntry env input req result) a)"
  "historyLimit (remember env input req result a) = historyLimit a"
  by (auto simp add: remember_def addHistoryEntry_def Let_def split: jsValue.split)

lemma addHistoryEntry_drop:
  assumes "length (history a) \<le> historyLimit a"
  shows "history (addHistoryEntry e a) = drop (length (history a) + 1 - historyLimit a) (history a @ [e])"
proof (cases "length (history a) = historyLimit a")
  case True
  then have "length (history a) + 1 - historyLimit a = Suc 0" by simp
  moreover have "history (addHistoryEntry e a) = tl (history a @ [e])"
    using True by (simp add: addHistoryEntry_def Let_def)
  ultimately show ?thesis by (cases "history a") (simp_all add: drop_Suc)
next
  case False
  with assms have "length (history a) + 1 - historyLimit a = 0" by simp
  moreover have "history (addHistoryEntry e a) = history a @ [e]"
    using False assms by (simp add: addHistoryEntry_def Let_def)
  ultimately show ?thesis by simp
qed

lemma calculate_step:
  "calculate env a input = (p, a') \<Longrightarrow> length (history a) \<le> historyLimit a \<Longrightarrow>
   historyLimit a' = historyLimit a
   \<and> history a' = drop (length (history a) + length (filter isSuccess [p]) - historyLimit a)
                     (history a @ map entryOfPayload (filter isSuccess [p]))"
  using calculate_cases [of env a input]
  by (auto simp add: success_isSuccess failure_not_success entry_of_success remember_history
        addHistoryEntry_drop)

lemma drop_step:
  fixes h new rest :: "'a list"
  assumes "h' = drop (length h + length new - L) (h @ new)"
  shows "drop (length h' + length rest - L) (h' @ rest)
       = drop (length h + length (new @ rest) - L) (h @ new @ rest)"
proof -
  define d where "d = length h + length new - L"
  define k where "k = length h' + length rest - L"
  have d: "d \<le> length (h @ new)" by (simp add: d_def)
  have h': "h' = drop d (h @ new)" using assms by (simp add: d_def)
  have e: "h' @ rest = drop d ((h @ new) @ rest)" using d h' by simp
  have "length h' = length h + length new - d" using h' by simp
  then have n: "k + d = length h + length (new @ rest) - L"
    by (simp add: d_def k_def)
  have "drop k (h' @ rest) = drop k (drop d ((h @ new) @ rest))" by (simp only: e)
  also have "\<dots> = drop (k + d) ((h @ new) @ rest)" by (simp only: drop_drop)
  also have "\<dots> = drop (length h + length (new @ rest) - L) (h @ new @ rest)"
    by (simp only: n append_assoc)
  finally show ?thesis by (simp only: k_def)
qed

lemma session_history:
  "length (history a) \<le> historyLimit a \<Longrightarrow>
   historyLimit (snd (session a reqs)) = historyLimit a
   \<and> history (snd (session a reqs)) =
       drop (length (history a) + length (filter isSuccess (fst (session a reqs))) - historyLimit a)
         (history a @ map entryOfPayload (filter isSuccess (fst (session a reqs))))"
proof (induction reqs arbitrary: a)
  case Nil
  then show ?case by simp
next
  case (Cons r reqs)
  obtain env input where r: "r = (env, input)" by (cases r)
  obtain p a' where c: "calculate env a input = (p, a')" by (cases "calculate env a input")
  define new where "new = map entryOfPayload (filter isSuccess [p])"
  define rest where "rest = map entryOfPayload (filter isSuccess (fst (session a' reqs)))"
  from calculate_step [OF c Cons.prems]
  have lim: "historyLimit a' = historyLimit a"
    and h: "history a' = drop (length (history a) + length new - historyLimit a) (history a @ new)"
    by (simp_all add: new_def)
  have len: "length (history a') \<le> historyLimit a'" using h lim Cons.prems by auto
  have ih: "historyLimit (snd (session a' reqs)) = historyLimit a'"
    "history (snd (session a' reqs)) = drop (length (history a') + length rest - historyLimit a') (history a' @ rest)"
    using Cons.IH [OF len] by (simp_all add: rest_def)
  have f: "fst (session a (r # reqs)) = p # fst (session a' reqs)"
    and s: "snd (session a (r # reqs)) = snd (session a' reqs)"
    using r c by (simp_all split: prod.split)
  have all: "map entryOfPayload (filter isSuccess (fst (session a (r # reqs)))) = new @ rest"
    by (simp add: f new_def rest_def)
  have "history (snd (session a (r # reqs))) =
      drop (length (history a') + length rest - historyLimit a) (history a' @ rest)"
    using s ih lim by simp
  also have "\<dots> = drop (length (history a) + length (new @ rest) - historyLimit a) (history a @ new @ rest)"
    by (rule drop_step [OF h])
  finally have "history (snd (session a (r # reqs))) =
      drop (length (history a) + length (new @ rest) - historyLimit a) (history a @ new @ rest)" .
  then have "history (snd (session a (r # reqs))) =
      drop (length (history a) + length (filter isSuccess (fst (session a (r # reqs)))) - historyLimit a)
        (history a @ map entryOfPayload (filter isSuccess (fst (session a (r # reqs)))))"
    using all by (metis length_map)
  moreover have "historyLimit (snd (session a (r # reqs))) = historyLimit a" using s ih lim by simp
  ultimately show ?case by simp
qed

text \<open>
  C5. An agent that starts with an empty ledger, as the constructor leaves it (with the
  cap 50), handles any list of requests. At the end the ledger is the list of the entries
  of the successful requests, in their order, without the first ones beyond the cap: one
  entry for each success, never more than the cap, exactly the cap once more requests
  than the cap have succeeded, and then the entry of the first success is gone (where
  the entries are distinct, so that the entry can be told from the later ones).
\<close>

theorem history_keeps_latest_entries:
  assumes "history a = []"
  shows "history (snd (session a reqs)) =
           map entryOfPayload
             (drop (length (filter isSuccess (fst (session a reqs))) - historyLimit a)
                (filter isSuccess (fst (session a reqs))))
         \<and> length (history (snd (session a reqs))) =
             min (length (filter isSuccess (fst (session a reqs)))) (historyLimit a)
         \<and> historyLimit (snd (session a reqs)) = historyLimit a
         \<and> (historyLimit a < length (filter isSuccess (fst (session a reqs)))
              \<and> distinct (map entryOfPayload (filter isSuccess (fst (session a reqs)))) \<longrightarrow>
              entryOfPayload (hd (filter isSuccess (fst (session a reqs))))
                \<notin> set (history (snd (session a reqs))))
         \<and> history newAgent = [] \<and> historyLimit newAgent = 50"
proof -
  let ?done = "filter isSuccess (fst (session a reqs))"
  let ?final = "snd (session a reqs)"
  let ?L = "historyLimit a"
  have h: "history ?final = map entryOfPayload (drop (length ?done - ?L) ?done)"
    using session_history [of a reqs] assms by (simp add: drop_map)
  have l: "length (history ?final) = min (length ?done) ?L"
    unfolding h by (simp add: min_def)
  have lim: "historyLimit ?final = ?L"
    using session_history [of a reqs] assms by simp
  have gone: "?L < length ?done \<and> distinct (map entryOfPayload ?done) \<longrightarrow>
        entryOfPayload (hd ?done) \<notin> set (history ?final)"
  proof (intro impI notI)
    assume a: "?L < length ?done \<and> distinct (map entryOfPayload ?done)"
      and mem: "entryOfPayload (hd ?done) \<in> set (history ?final)"
    from a have n: "?L < length ?done" and dist: "distinct (map entryOfPayload ?done)"
      by simp_all
    let ?es = "map entryOfPayload ?done"
    from n have ne: "?es \<noteq> []" by auto
    have hd0: "entryOfPayload (hd ?done) = ?es ! 0" using ne by (simp add: hd_map hd_conv_nth)
    from mem h have "?es ! 0 \<in> set (drop (length ?done - ?L) ?es)" by (simp add: hd0 drop_map)
    then obtain j where j: "j < length (drop (length ?done - ?L) ?es)"
        "drop (length ?done - ?L) ?es ! j = ?es ! 0" by (auto simp add: in_set_conv_nth)
    then have e: "?es ! (length ?done - ?L + j) = ?es ! 0" and k: "length ?done - ?L + j < length ?es"
      by auto
    from ne have z: "0 < length ?es" by simp
    from dist k z e have "length ?done - ?L + j = 0" by (rule nth_eq_iff_index_eq [THEN iffD1])
    with n show False by simp
  qed
  have new: "history newAgent = [] \<and> historyLimit newAgent = 50" by (simp add: newAgent_def)
  from h l lim gone new show ?thesis by (intro conjI) simp_all
qed

lemma smallLedger_fields: "history smallLedger = [] \<and> historyLimit smallLedger = 2"
  by (simp add: smallLedger_def newAgent_def)

lemma threeRequests_succeed:
  "length (filter isSuccess (fst (session smallLedger threeRequests))) = 3
   \<and> distinct (map entryOfPayload (filter isSuccess (fst (session smallLedger threeRequests))))"
  by code_simp

theorem history_keeps_latest_entries_witness:
  "history smallLedger = []
   \<and> length (filter isSuccess (fst (session smallLedger threeRequests))) = 3
   \<and> length (history (snd (session smallLedger threeRequests))) = 2
   \<and> entryOfPayload (hd (filter isSuccess (fst (session smallLedger threeRequests))))
       \<notin> set (history (snd (session smallLedger threeRequests)))"
proof -
  have e: "history smallLedger = []" by (simp add: smallLedger_fields)
  have lim: "historyLimit smallLedger = 2" by (simp add: smallLedger_fields)
  have n: "length (filter isSuccess (fst (session smallLedger threeRequests))) = 3"
    by (rule conjunct1 [OF threeRequests_succeed])
  have d: "distinct (map entryOfPayload (filter isSuccess (fst (session smallLedger threeRequests))))"
    by (rule conjunct2 [OF threeRequests_succeed])
  note t = history_keeps_latest_entries [OF e, of threeRequests]
  have "length (history (snd (session smallLedger threeRequests))) =
      min (length (filter isSuccess (fst (session smallLedger threeRequests)))) (historyLimit smallLedger)"
    by (rule conjunct1 [OF conjunct2 [OF t]])
  then have l: "length (history (snd (session smallLedger threeRequests))) = 2"
    by (simp add: n lim)
  have "historyLimit smallLedger < length (filter isSuccess (fst (session smallLedger threeRequests)))"
    by (simp add: n lim)
  with d have "historyLimit smallLedger < length (filter isSuccess (fst (session smallLedger threeRequests)))
      \<and> distinct (map entryOfPayload (filter isSuccess (fst (session smallLedger threeRequests))))"
    by (rule conjI [rotated])
  then have g: "entryOfPayload (hd (filter isSuccess (fst (session smallLedger threeRequests))))
      \<notin> set (history (snd (session smallLedger threeRequests)))"
    by (rule conjunct1 [OF conjunct2 [OF conjunct2 [OF conjunct2 [OF t]]], THEN mp])
  show ?thesis by (rule conjI [OF e conjI [OF n conjI [OF l g]]])
qed

section \<open>The last answer\<close>


































end
